theory Spec2Isabelle
  imports Complex_Main "HOL-Library.Log_Nat"
begin

section \<open>Numbers\<close>

text \<open>
  A JavaScript Number is an IEEE 754 double: a finite value, which is a rational
  number, one of the two infinities, or NaN. The negative zero is identified with zero:
  the code at hand never divides and never tells the two apart.

  \<open>fl\<close> rounds a rational to the nearest double, a tie to the even significand.
  \<open>binexp a\<close> is the binary exponent of a positive rational, \<open>2^k \<le> a < 2^(k+1)\<close>,
  read off the bit lengths of its numerator and denominator. A double has a significand
  of 53 bits, so the doubles near \<open>x\<close> are the multiples of \<open>2^(binexp x - 52)\<close>, and
  those of \<open>2^(-1074)\<close> in the subnormal range; a rounded value of \<open>2^1024\<close> or more is an
  infinity.
\<close>

datatype number = Fin rat | PosInf | NegInf | NaN

definition binexp :: "rat \<Rightarrow> int" where
  "binexp a =
     (let k = bitlen (fst (quotient_of a)) - bitlen (snd (quotient_of a))
      in if a < 2 powi k then k - 1 else k)"

definition roundToEven :: "rat \<Rightarrow> int" where
  "roundToEven q =
     (let f = \<lfloor>q\<rfloor>; r = q - of_int f
      in if r < 1 / 2 then f else if 1 / 2 < r then f + 1 else if even f then f else f + 1)"

definition fl :: "rat \<Rightarrow> number" where
  "fl x =
     (if x = 0 then Fin 0
      else
        let e = max (binexp \<bar>x\<bar> - 52) (- 1074);
            y = of_int (roundToEven (\<bar>x\<bar> / 2 powi e)) * 2 powi e
        in if 2 powi 1024 \<le> y then (if 0 < x then PosInf else NegInf)
           else Fin (sgn x * y))"

text \<open>
  The operators of the language on Numbers: \<open>+\<close>, unary and binary \<open>-\<close>, \<open>*\<close> (the
  exact result, rounded), \<open><\<close> and \<open><=\<close> (false when an operand is NaN); \<open>a > b\<close> is
  \<open>b < a\<close> and \<open>a >= b\<close> is \<open>b <= a\<close>. A Number is falsy when it is zero or NaN.
  \<open>Math.round\<close> gives the nearest integer, a half upwards. The literal \<open>0.1\<close> is the
  double \<open>fl (1 / 10)\<close>.
\<close>

fun js_add :: "number \<Rightarrow> number \<Rightarrow> number" where
  "js_add (Fin a) (Fin b) = fl (a + b)"
| "js_add NaN b = NaN"
| "js_add a NaN = NaN"
| "js_add PosInf NegInf = NaN"
| "js_add NegInf PosInf = NaN"
| "js_add PosInf b = PosInf"
| "js_add NegInf b = NegInf"
| "js_add (Fin a) PosInf = PosInf"
| "js_add (Fin a) NegInf = NegInf"

fun js_neg :: "number \<Rightarrow> number" where
  "js_neg (Fin a) = Fin (- a)"
| "js_neg PosInf = NegInf"
| "js_neg NegInf = PosInf"
| "js_neg NaN = NaN"

definition js_sub :: "number \<Rightarrow> number \<Rightarrow> number" where
  "js_sub a b = js_add a (js_neg b)"

fun js_mul :: "number \<Rightarrow> number \<Rightarrow> number" where
  "js_mul (Fin a) (Fin b) = fl (a * b)"
| "js_mul NaN b = NaN"
| "js_mul a NaN = NaN"
| "js_mul PosInf (Fin b) = (if b = 0 then NaN else if 0 < b then PosInf else NegInf)"
| "js_mul NegInf (Fin b) = (if b = 0 then NaN else if 0 < b then NegInf else PosInf)"
| "js_mul (Fin a) PosInf = (if a = 0 then NaN else if 0 < a then PosInf else NegInf)"
| "js_mul (Fin a) NegInf = (if a = 0 then NaN else if 0 < a then NegInf else PosInf)"
| "js_mul PosInf PosInf = PosInf"
| "js_mul PosInf NegInf = NegInf"
| "js_mul NegInf PosInf = NegInf"
| "js_mul NegInf NegInf = PosInf"

fun js_lt :: "number \<Rightarrow> number \<Rightarrow> bool" where
  "js_lt (Fin a) (Fin b) = (a < b)"
| "js_lt NaN b = False"
| "js_lt a NaN = False"
| "js_lt a NegInf = False"
| "js_lt PosInf b = False"
| "js_lt NegInf b = True"
| "js_lt (Fin a) PosInf = True"

definition js_le :: "number \<Rightarrow> number \<Rightarrow> bool" where
  "js_le a b \<longleftrightarrow> a \<noteq> NaN \<and> (js_lt a b \<or> a = b)"

definition js_gt :: "number \<Rightarrow> number \<Rightarrow> bool" where
  "js_gt a b = js_lt b a"

definition falsy :: "number \<Rightarrow> bool" where
  "falsy n \<longleftrightarrow> n = Fin 0 \<or> n = NaN"

fun Math_round :: "number \<Rightarrow> number" where
  "Math_round (Fin x) = Fin (of_int \<lfloor>x + 1 / 2\<rfloor>)"
| "Math_round n = n"

text \<open>
  The value of a finite Number, for the statements that compare the code's arithmetic
  with exact arithmetic; they speak of finite Numbers only. A whole Number is a natural
  number.
\<close>

fun val :: "number \<Rightarrow> rat" where
  "val (Fin r) = r"
| "val n = 0"

fun whole :: "number \<Rightarrow> bool" where
  "whole (Fin r) = (0 \<le> r \<and> of_int \<lfloor>r\<rfloor> = r)"
| "whole n = False"

section \<open>Data model\<close>

text \<open>
  The backend keeps Products, Carts and Orders as Mongoose documents. An ObjectId is
  modelled as a natural number (the source compares ids through \<open>toString()\<close>, which
  is equality of ids), a Date as a natural number. A schema path of type Number does
  not take NaN (the cast fails, and with it the validation of \<open>save()\<close>); a \<open>min\<close>
  validator compares with \<open>>=\<close>.
\<close>

type_synonym objectId = nat
type_synonym date = nat

text \<open>
  What a rejected promise or a thrown exception carries. The four \<open>Error\<close>s of the
  Cart model are told apart by their message:
  \<^item> \<open>ProductNotFound\<close>: \<^verbatim>\<open>Product not found\<close>;
  \<^item> \<open>ProductOutOfStock\<close>: \<^verbatim>\<open>Product is out of stock\<close>;
  \<^item> \<open>OnlyAvailable s\<close>: \<^verbatim>\<open>Only ${s} items available in stock\<close>;
  \<^item> \<open>ItemNotFound\<close>: \<^verbatim>\<open>Item not found in cart\<close>;
  \<^item> \<open>TypeError\<close>: the runtime's error on reading a property of \<open>null\<close>;
  \<^item> \<open>ValidationError\<close>: Mongoose's rejection of \<open>save()\<close> when a schema validator
    (\<open>required\<close>, \<open>min\<close>, \<open>maxlength\<close>, \<open>enum\<close>) fails;
  \<^item> \<open>DuplicateKey\<close>: MongoDB's error 11000 on an insert whose \<open>_id\<close> is taken;
  \<^item> \<open>PaymentProcessingFailed m\<close>: \<^verbatim>\<open>Payment processing failed: ${m}\<close>;
  \<^item> \<open>PaymentVerificationFailed m\<close>: \<^verbatim>\<open>Payment verification failed: ${m}\<close>.
\<close>

datatype error =
    ProductNotFound
  | ProductOutOfStock
  | OnlyAvailable number
  | ItemNotFound
  | TypeError
  | ValidationError
  | DuplicateKey
  | PaymentProcessingFailed string
  | PaymentVerificationFailed string

subsection \<open>Embedded documents of an Order, and the gateway's payment intent\<close>

text \<open>
  A string field that the request leaves out is modelled as the empty string: both are
  falsy in the controller's checks and both fail a \<open>required\<close> validator. \<open>country\<close>
  has a schema default, which applies to a missing value only, so it is optional here.
\<close>

record ShippingAddress =
  name :: string
  phone :: string
  address :: string
  city :: string
  state :: string
  zipCode :: string
  country :: "string option"

definition shippingAddressValid :: "ShippingAddress \<Rightarrow> bool" where
  "shippingAddressValid a \<longleftrightarrow>
     name a \<noteq> [] \<and> phone a \<noteq> [] \<and> address a \<noteq> [] \<and> city a \<noteq> [] \<and>
     state a \<noteq> [] \<and> zipCode a \<noteq> [] \<and> country a \<noteq> None \<and> country a \<noteq> Some []"

text \<open>The fields of Stripe's PaymentIntent object that the controllers read.\<close>

record PaymentIntent =
  id' :: string
  status :: string
  receipt_email :: "string option"

record PaymentResult =
  id' :: "string option"
  status :: "string option"
  update_time :: "date option"
  email_address :: "string option"

subsection \<open>Product\<close>

record Product =
  name :: string
  images :: "string list"
  price :: number
  stock :: number
  inStock :: bool

text \<open>The validators of \<open>productSchema\<close> on the fields above.\<close>

definition productValid :: "Product \<Rightarrow> bool" where
  "productValid p \<longleftrightarrow>
     Product.name p \<noteq> [] \<and> length (Product.name p) \<le> 200 \<and>
     list_all (\<lambda>url. url \<noteq> []) (images p) \<and>
     js_le (Fin 0) (Product.price p) \<and> js_le (Fin 0) (stock p)"

subsection \<open>Cart\<close>

text \<open>
  \<open>cartItemSchema\<close> and \<open>orderItemSchema\<close> declare the same five fields; one record
  serves both, each schema with its own validators.
\<close>

record Item =
  product :: objectId
  name :: string
  image :: string
  price :: number
  quantity :: number

record Cart =
  user :: objectId
  items :: "Item list"
  totalPrice :: number
  totalItems :: number

definition cartItemValid :: "Item \<Rightarrow> bool" where
  "cartItemValid item \<longleftrightarrow>
     name item \<noteq> [] \<and> js_le (Fin 0) (price item) \<and> js_le (Fin 1) (quantity item)"

definition cartValid :: "Cart \<Rightarrow> bool" where
  "cartValid c \<longleftrightarrow>
     list_all cartItemValid (items c) \<and>
     js_le (Fin 0) (Cart.totalPrice c) \<and> js_le (Fin 0) (totalItems c)"

text \<open>
  \<open>this.save()\<close> on a cart: the document is written when it passes the validators of
  \<open>cartSchema\<close>, and the promise is rejected otherwise. \<open>Inr c\<close> is the stored cart.
\<close>

definition save_cart :: "Cart \<Rightarrow> error + Cart" where
  "save_cart c = (if cartValid c then Inr c else Inl ValidationError)"

definition calculateTotals :: "Cart \<Rightarrow> Cart" where
  "calculateTotals c =
     c\<lparr>totalPrice := foldl (\<lambda>total item. js_add total (js_mul (price item) (quantity item)))
                          (Fin 0) (items c),
       totalItems := foldl (\<lambda>total item. js_add total (quantity item)) (Fin 0) (items c)\<rparr>"

text \<open>\<open>Array.prototype.findIndex\<close>: the first index whose element satisfies the test.\<close>

fun findIndex :: "('a \<Rightarrow> bool) \<Rightarrow> 'a list \<Rightarrow> nat option" where
  "findIndex P [] = None"
| "findIndex P (x # xs) =
     (if P x then Some 0 else map_option Suc (findIndex P xs))"

text \<open>
  \<open>addItem\<close>. The products collection \<open>ps\<close> is read through \<open>Product.findById\<close>.
  \<open>productSchema.images\<close> is an array of strings, so \<open>images?.[0]?.url\<close> is
  \<open>undefined\<close> and the image snapshot is the empty string.
\<close>

definition addItem :: "(objectId \<rightharpoonup> Product) \<Rightarrow> Cart \<Rightarrow> objectId \<Rightarrow> number \<Rightarrow> error + Cart" where
  "addItem ps c pid qty =
     (case ps pid of
        None \<Rightarrow> Inl ProductNotFound
      | Some productDoc \<Rightarrow>
          if \<not> inStock productDoc then Inl ProductOutOfStock
          else
            (case findIndex (\<lambda>item. product item = pid) (items c) of
               Some existingItemIndex \<Rightarrow>
                 let newQuantity = js_add (quantity (items c ! existingItemIndex)) qty in
                 if js_gt newQuantity (stock productDoc) then Inl (OnlyAvailable (stock productDoc))
                 else save_cart (calculateTotals
                        (c\<lparr>items := (items c)[existingItemIndex :=
                                       (items c ! existingItemIndex)\<lparr>quantity := newQuantity\<rparr>]\<rparr>))
             | None \<Rightarrow>
                 save_cart (calculateTotals
                   (c\<lparr>items := items c @
                        [\<lparr>product = pid, name = Product.name productDoc, image = [],
                          price = Product.price productDoc, quantity = qty\<rparr>]\<rparr>))))"

definition removeItem :: "Cart \<Rightarrow> objectId \<Rightarrow> error + Cart" where
  "removeItem c productId =
     save_cart (calculateTotals (c\<lparr>items := filter (\<lambda>item. product item \<noteq> productId) (items c)\<rparr>))"

text \<open>
  \<open>updateItemQuantity\<close>. \<open>Array.prototype.find\<close> returns the first matching item,
  which is then assigned in place. \<open>productDoc.stock\<close> is read without a check that
  \<open>findById\<close> found a document: on \<open>null\<close> the read throws a TypeError.
\<close>

definition updateItemQuantity :: "(objectId \<rightharpoonup> Product) \<Rightarrow> Cart \<Rightarrow> objectId \<Rightarrow> number \<Rightarrow> error + Cart" where
  "updateItemQuantity ps c productId qty =
     (if js_le qty (Fin 0) then removeItem c productId
      else
        (case findIndex (\<lambda>item. product item = productId) (items c) of
           None \<Rightarrow> Inl ItemNotFound
         | Some i \<Rightarrow>
             (case ps productId of
                None \<Rightarrow> Inl TypeError
              | Some productDoc \<Rightarrow>
                  if js_gt qty (stock productDoc) then Inl (OnlyAvailable (stock productDoc))
                  else save_cart (calculateTotals
                         (c\<lparr>items := (items c)[i := (items c ! i)\<lparr>quantity := qty\<rparr>]\<rparr>)))))"

definition clearCart :: "Cart \<Rightarrow> error + Cart" where
  "clearCart c = save_cart (c\<lparr>items := [], totalPrice := Fin 0, totalItems := Fin 0\<rparr>)"

text \<open>
  The cart mutations as one datatype, and a history of them: each step carries the
  products collection of its moment. A rejected mutation stores nothing, so the stored
  cart stays what it was. \<open>cartStates\<close> lists the stored cart after each mutation
  that went through.
\<close>

datatype cartOp =
    AddItem objectId number
  | UpdateItemQuantity objectId number
  | RemoveItem objectId
  | ClearCart

fun applyOp :: "(objectId \<rightharpoonup> Product) \<Rightarrow> Cart \<Rightarrow> cartOp \<Rightarrow> error + Cart" where
  "applyOp ps c (AddItem pid qty) = addItem ps c pid qty"
| "applyOp ps c (UpdateItemQuantity pid qty) = updateItemQuantity ps c pid qty"
| "applyOp ps c (RemoveItem pid) = removeItem c pid"
| "applyOp ps c ClearCart = clearCart c"

fun cartStates :: "Cart \<Rightarrow> ((objectId \<rightharpoonup> Product) \<times> cartOp) list \<Rightarrow> Cart list" where
  "cartStates c [] = []"
| "cartStates c ((ps, op) # steps) =
     (case applyOp ps c op of
        Inl e \<Rightarrow> cartStates c steps
      | Inr c' \<Rightarrow> c' # cartStates c' steps)"

subsection \<open>Order\<close>

record Order =
  order_id :: objectId
  user :: objectId
  orderItems :: "Item list"
  shippingAddress :: ShippingAddress
  paymentMethod :: string
  paymentResult :: "PaymentResult option"
  paymentIntentId :: "string option"
  itemsPrice :: number
  shippingPrice :: number
  taxPrice :: number
  totalPrice :: number
  isPaid :: bool
  paidAt :: "date option"
  isDelivered :: bool
  deliveredAt :: "date option"
  orderStatus :: string

text \<open>
  \<open>order_id\<close> is the document's \<open>_id\<close>. The validators of \<open>orderSchema\<close> follow; a
  \<open>required\<close> string must not be empty, unlike a cart item an order item must have
  an image, and the Numbers without a \<open>min\<close> must still be Numbers.
\<close>

definition orderItemValid :: "Item \<Rightarrow> bool" where
  "orderItemValid item \<longleftrightarrow>
     name item \<noteq> [] \<and> image item \<noteq> [] \<and> price item \<noteq> NaN \<and> js_le (Fin 1) (quantity item)"

definition validStatuses :: "string list" where
  "validStatuses = [''pending'', ''processing'', ''shipped'', ''delivered'', ''cancelled'']"

definition orderValid :: "Order \<Rightarrow> bool" where
  "orderValid order \<longleftrightarrow>
     list_all orderItemValid (orderItems order) \<and>
     shippingAddressValid (shippingAddress order) \<and>
     paymentMethod order \<in> set [''stripe'', ''cod''] \<and>
     itemsPrice order \<noteq> NaN \<and> shippingPrice order \<noteq> NaN \<and> taxPrice order \<noteq> NaN \<and>
     totalPrice order \<noteq> NaN \<and>
     orderStatus order \<in> set validStatuses"

text \<open>\<open>orderSchema.methods.calculateTotals\<close>.\<close>

definition calculateOrderTotals :: "Order \<Rightarrow> Order" where
  "calculateOrderTotals order =
     (let itemsPrice = foldl (\<lambda>total item. js_add total (js_mul (price item) (quantity item)))
                         (Fin 0) (orderItems order);
          taxPrice = Math_round (js_mul itemsPrice (fl (1 / 10)));
          shippingPrice = (if js_gt itemsPrice (Fin 500) then Fin 0 else Fin 50)
      in order\<lparr>itemsPrice := itemsPrice, taxPrice := taxPrice, shippingPrice := shippingPrice,
               totalPrice := js_add (js_add itemsPrice taxPrice) shippingPrice\<rparr>)"

section \<open>The database and the controllers\<close>

text \<open>
  Carts are keyed by their user (\<open>unique: true\<close>; the controllers find a cart by
  \<open>{user: req.user.id}\<close>). Orders are a list of documents, searched in order by
  \<open>findById\<close> and \<open>findOne\<close>.
\<close>

record Database =
  products :: "objectId \<rightharpoonup> Product"
  carts :: "objectId \<rightharpoonup> Cart"
  orders :: "Order list"

text \<open>
  A response: \<open>Failure code e\<close> is \<open>res.status(code)\<close> with an error body. The
  controllers' own error bodies:
  \<^item> \<open>ShippingAddressRequired\<close>: \<^verbatim>\<open>Shipping address is required\<close>;
  \<^item> \<open>CartIsEmpty\<close>: \<^verbatim>\<open>Cart is empty\<close>;
  \<^item> \<open>ProductOfItemNotFound n\<close>: \<^verbatim>\<open>Product ${n} not found\<close>;
  \<^item> \<open>ProductOfItemUnavailable n\<close>:
    \<^verbatim>\<open>Product ${n} is out of stock or insufficient quantity available\<close>;
  \<^item> \<open>OrderNotFound\<close>: \<^verbatim>\<open>Order not found\<close>;
  \<^item> \<open>OrderAlreadyPaid\<close>: \<^verbatim>\<open>Order is already paid\<close>;
  \<^item> \<open>PaymentNotSuccessful\<close>: \<^verbatim>\<open>Payment not successful\<close>;
  \<^item> \<open>InvalidStatus\<close>: \<^verbatim>\<open>Invalid status. Must be one of: ...\<close>;
  \<^item> \<open>CartNotFound\<close>: \<^verbatim>\<open>Cart not found\<close>;
  \<^item> \<open>ValidQuantityRequired\<close>: \<^verbatim>\<open>Valid quantity is required\<close>;
  \<^item> \<open>WebhookSecretNotConfigured\<close>: \<^verbatim>\<open>Webhook secret not configured\<close>;
  \<^item> \<open>WebhookError\<close>: \<^verbatim>\<open>Webhook Error: ...\<close>;
  \<^item> \<open>NoSuchProduct\<close>: \<^verbatim>\<open>Product not found\<close>, from the product controller;
  \<^item> \<open>PaymentSetupFailed e\<close>: \<^verbatim>\<open>Payment processing failed: ${e.message}\<close>;
  \<^item> \<open>VerificationFailed e\<close>: \<^verbatim>\<open>Payment verification failed: ${e.message}\<close>;
  \<^item> \<open>Thrown e\<close>: the message of the exception \<open>e\<close>.
\<close>

datatype failure =
    ShippingAddressRequired
  | CartIsEmpty
  | ProductOfItemNotFound string
  | ProductOfItemUnavailable string
  | OrderNotFound
  | OrderAlreadyPaid
  | PaymentNotSuccessful
  | InvalidStatus
  | CartNotFound
  | ValidQuantityRequired
  | WebhookSecretNotConfigured
  | WebhookError
  | NoSuchProduct
  | PaymentSetupFailed error
  | VerificationFailed error
  | Thrown error

datatype response =
    Failure nat failure
  | OrderCreated Order "(string \<times> string) option"
  | OrderUpdated Order
  | CartUpdated Cart
  | ProductUpdated Product
  | Received

text \<open>
  \<open>errorHandler\<close>, where \<open>next(error)\<close> ends: a duplicate key and a Mongoose
  ValidationError are answered with 400, an error without a \<open>statusCode\<close> with 500.
\<close>

definition errorHandler :: "error \<Rightarrow> response" where
  "errorHandler err =
     (if err = DuplicateKey \<or> err = ValidationError then Failure 400 (Thrown err)
      else Failure 500 (Thrown err))"

subsection \<open>Cart controller: \<open>updateCartItem\<close>\<close>

text \<open>
  The controller answers 400 itself when the message of the rejection includes
  \<^verbatim>\<open>not found\<close> or \<^verbatim>\<open>available in stock\<close>, and hands every other error to
  \<open>next\<close>.
\<close>

definition mentionsNotFoundOrStock :: "error \<Rightarrow> bool" where
  "mentionsNotFoundOrStock e \<longleftrightarrow>
     (case e of ProductNotFound \<Rightarrow> True | ItemNotFound \<Rightarrow> True | OnlyAvailable s \<Rightarrow> True | _ \<Rightarrow> False)"

definition updateCartItem :: "Database \<Rightarrow> objectId \<Rightarrow> objectId \<Rightarrow> number \<Rightarrow> response \<times> Database" where
  "updateCartItem db userId productId qty =
     (if falsy qty \<or> js_lt qty (Fin 0) then (Failure 400 ValidQuantityRequired, db)
      else
        (case carts db userId of
           None \<Rightarrow> (Failure 404 CartNotFound, db)
         | Some cart \<Rightarrow>
             (case updateItemQuantity (products db) cart productId qty of
                Inr cart' \<Rightarrow> (CartUpdated cart', db\<lparr>carts := (carts db)(userId \<mapsto> cart')\<rparr>)
              | Inl e \<Rightarrow>
                  if mentionsNotFoundOrStock e then (Failure 400 (Thrown e), db)
                  else (errorHandler e, db))))"

subsection \<open>Product controller: \<open>updateProduct\<close>\<close>

text \<open>
  \<open>findByIdAndUpdate\<close> with the request body and \<open>runValidators\<close>, restricted to
  the two fields of the body that the cart and the checkout read.
\<close>

definition updateProduct :: "Database \<Rightarrow> objectId \<Rightarrow> number option \<Rightarrow> number option \<Rightarrow> response \<times> Database" where
  "updateProduct db pid newPrice newStock =
     (case products db pid of
        None \<Rightarrow> (Failure 404 NoSuchProduct, db)
      | Some p \<Rightarrow>
          let p1 = (case newPrice of None \<Rightarrow> p | Some v \<Rightarrow> p\<lparr>Product.price := v\<rparr>);
              p2 = (case newStock of
                      None \<Rightarrow> p1
                    | Some v \<Rightarrow> p1\<lparr>stock := v, inStock := js_gt v (Fin 0)\<rparr>)
          in if (case newPrice of None \<Rightarrow> True | Some v \<Rightarrow> js_le (Fin 0) v) \<and>
                (case newStock of None \<Rightarrow> True | Some v \<Rightarrow> js_le (Fin 0) v)
             then (ProductUpdated p2, db\<lparr>products := (products db)(pid \<mapsto> p2)\<rparr>)
             else (errorHandler ValidationError, db))"

subsection \<open>Order controller: \<open>createOrder\<close>\<close>

text \<open>
  The stock check of \<open>createOrder\<close>: the loop returns the response of the first cart
  item whose product is missing, not in stock or short of the item's quantity.
\<close>

fun validateStock :: "(objectId \<rightharpoonup> Product) \<Rightarrow> Item list \<Rightarrow> response option" where
  "validateStock ps [] = None"
| "validateStock ps (item # rest) =
     (case ps (product item) of
        None \<Rightarrow> Some (Failure 404 (ProductOfItemNotFound (name item)))
      | Some p \<Rightarrow>
          if \<not> inStock p \<or> js_lt (stock p) (quantity item)
          then Some (Failure 400 (ProductOfItemUnavailable (name item)))
          else validateStock ps rest)"

text \<open>
  \<open>new Order({...})\<close> with the fields the controller passes; the schema default fills
  a missing country. \<open>newId\<close> is the ObjectId generated for the document.
\<close>

definition newOrder :: "objectId \<Rightarrow> objectId \<Rightarrow> Item list \<Rightarrow> ShippingAddress \<Rightarrow> string \<Rightarrow> Order" where
  "newOrder newId userId its addr meth =
     \<lparr>order_id = newId, user = userId, orderItems = its,
      shippingAddress = addr\<lparr>country := Some (case country addr of None \<Rightarrow> ''India'' | Some c \<Rightarrow> c)\<rparr>,
      paymentMethod = meth, paymentResult = None, paymentIntentId = None,
      itemsPrice = Fin 0, shippingPrice = Fin 0, taxPrice = Fin 0, totalPrice = Fin 0,
      isPaid = False, paidAt = None, isDelivered = False, deliveredAt = None,
      orderStatus = ''pending''\<rparr>"

text \<open>
  \<open>order.save()\<close>: an insert for a new document, an update by \<open>_id\<close> for a loaded
  one; both run the validators first. The collection's index on \<open>_id\<close> is unique, so
  an insert under an id that is taken is rejected. \<open>Order.findById\<close> and
  \<open>Order.findByIdAndDelete\<close> take the first document with the id.
\<close>

definition insert_order :: "Order \<Rightarrow> Order list \<Rightarrow> error + Order list" where
  "insert_order order os =
     (if \<not> orderValid order then Inl ValidationError
      else if order_id order \<in> order_id ` set os then Inl DuplicateKey
      else Inr (os @ [order]))"

definition save_order :: "Order \<Rightarrow> Order list \<Rightarrow> error + Order list" where
  "save_order order os =
     (if orderValid order
      then Inr (map (\<lambda>doc. if order_id doc = order_id order then order else doc) os)
      else Inl ValidationError)"

definition findById :: "objectId \<Rightarrow> Order list \<Rightarrow> Order option" where
  "findById i os = find (\<lambda>doc. order_id doc = i) os"

fun findByIdAndDelete :: "objectId \<Rightarrow> Order list \<Rightarrow> Order list" where
  "findByIdAndDelete i [] = []"
| "findByIdAndDelete i (doc # os) =
     (if order_id doc = i then os else doc # findByIdAndDelete i os)"

text \<open>
  \<open>createPaymentIntent\<close> of the Stripe utilities. \<open>stripe_create\<close> stands for
  \<open>stripe.paymentIntents.create\<close>: given the amount in the smallest unit it returns the
  client secret and the intent id, or throws with a message (\<open>Inl\<close>).
\<close>

definition createPaymentIntent :: "(number \<Rightarrow> string + string \<times> string) \<Rightarrow> number \<Rightarrow> error + string \<times> string" where
  "createPaymentIntent stripe_create amount =
     (if falsy amount \<or> js_le amount (Fin 0) then Inl (PaymentProcessingFailed ''Invalid amount'')
      else
        (case stripe_create (Math_round (js_mul amount (Fin 100))) of
           Inl m \<Rightarrow> Inl (PaymentProcessingFailed m)
         | Inr r \<Rightarrow> Inr r))"

text \<open>
  The order that \<open>createOrder\<close> builds before it saves anything: the order items
  copied from the cart items, the totals, and the paid state of a \<open>cod\<close> order.
\<close>

definition buildOrder :: "date \<Rightarrow> objectId \<Rightarrow> objectId \<Rightarrow> Cart \<Rightarrow> ShippingAddress \<Rightarrow> string \<Rightarrow> Order" where
  "buildOrder now newId userId cart addr meth =
     (let its = map (\<lambda>item. \<lparr>product = product item, name = name item,
                               image = image item, price = price item,
                               quantity = quantity item\<rparr>) (items cart);
          order = calculateOrderTotals (newOrder newId userId its addr meth)
      in if meth = ''cod''
         then order\<lparr>isPaid := True, paidAt := Some now, orderStatus := ''processing''\<rparr>
         else order)"

text \<open>
  \<open>reqAddress\<close> and \<open>reqMethod\<close> are \<open>shippingAddress\<close> and \<open>paymentMethod\<close> of the
  request body, \<open>userId\<close> is \<open>req.user.id\<close>.
\<close>

definition createOrder ::
  "(number \<Rightarrow> string + string \<times> string) \<Rightarrow> date \<Rightarrow> objectId \<Rightarrow> Database \<Rightarrow> objectId \<Rightarrow>
   ShippingAddress option \<Rightarrow> string option \<Rightarrow> response \<times> Database" where
  "createOrder stripe_create now newId db userId reqAddress reqMethod =
     (let meth = (case reqMethod of None \<Rightarrow> ''stripe'' | Some m \<Rightarrow> m) in
      case reqAddress of
        None \<Rightarrow> (Failure 400 ShippingAddressRequired, db)
      | Some addr \<Rightarrow>
          if address addr = [] \<or> city addr = [] then (Failure 400 ShippingAddressRequired, db)
          else
            (case carts db userId of
               None \<Rightarrow> (Failure 400 CartIsEmpty, db)
             | Some cart \<Rightarrow>
                 if length (items cart) = 0 then (Failure 400 CartIsEmpty, db)
                 else
                   (case validateStock (products db) (items cart) of
                      Some r \<Rightarrow> (r, db)
                    | None \<Rightarrow>
                        let order = buildOrder now newId userId cart addr meth in
                        (case insert_order order (orders db) of
                           Inl e \<Rightarrow> (errorHandler e, db)
                         | Inr os1 \<Rightarrow>
                             (case clearCart cart of
                                Inl e \<Rightarrow> (errorHandler e, db\<lparr>orders := os1\<rparr>)
                              | Inr cart' \<Rightarrow>
                                  let db2 = db\<lparr>carts := (carts db)(userId \<mapsto> cart'), orders := os1\<rparr> in
                                  if meth = ''stripe'' then
                                    (case createPaymentIntent stripe_create (totalPrice order) of
                                       Inl e \<Rightarrow>
                                         (Failure 500 (PaymentSetupFailed e),
                                          db2\<lparr>orders := findByIdAndDelete newId os1\<rparr>)
                                     | Inr (clientSecret, intentId) \<Rightarrow>
                                         let order' = order\<lparr>paymentIntentId := Some intentId\<rparr> in
                                         (case save_order order' os1 of
                                            Inl e \<Rightarrow>
                                              (Failure 500 (PaymentSetupFailed e),
                                               db2\<lparr>orders := findByIdAndDelete newId os1\<rparr>)
                                          | Inr os2 \<Rightarrow>
                                              (OrderCreated order' (Some (clientSecret, intentId)),
                                               db2\<lparr>orders := os2\<rparr>)))
                                  else (OrderCreated order None, db2))))))"

subsection \<open>Order controller: \<open>updateOrderToPaid\<close>\<close>

text \<open>
  The stock loop shared in shape by \<open>updateOrderToPaid\<close> and \<open>stripeWebhook\<close>: for
  each order item whose product still exists, the stock is lowered by the item's
  quantity, \<open>inStock\<close> is set by \<open>setInStock\<close> and the product is saved. A save that
  fails the validators (a stock below zero) throws and ends the loop; the products
  saved before it stay saved.
\<close>

fun decreaseStock ::
  "(Product \<Rightarrow> Product) \<Rightarrow> Item list \<Rightarrow> (objectId \<rightharpoonup> Product) \<Rightarrow> error option \<times> (objectId \<rightharpoonup> Product)" where
  "decreaseStock setInStock [] ps = (None, ps)"
| "decreaseStock setInStock (item # rest) ps =
     (case ps (product item) of
        None \<Rightarrow> decreaseStock setInStock rest ps
      | Some p \<Rightarrow>
          let p' = setInStock (p\<lparr>stock := js_sub (stock p) (quantity item)\<rparr>) in
          if productValid p' then decreaseStock setInStock rest (ps(product item \<mapsto> p'))
          else (Some ValidationError, ps))"

text \<open>\<open>product.inStock = product.stock > 0\<close>, as \<open>updateOrderToPaid\<close> has it.\<close>

definition inStockByStock :: "Product \<Rightarrow> Product" where
  "inStockByStock p = p\<lparr>inStock := js_gt (stock p) (Fin 0)\<rparr>"

text \<open>
  \<open>verifyPaymentIntent\<close> of the Stripe utilities; \<open>stripe_retrieve\<close> stands for
  \<open>stripe.paymentIntents.retrieve\<close>.
\<close>

definition verifyPaymentIntent :: "(string \<Rightarrow> string + PaymentIntent) \<Rightarrow> string \<Rightarrow> error + PaymentIntent" where
  "verifyPaymentIntent stripe_retrieve intentId =
     (case stripe_retrieve intentId of
        Inl m \<Rightarrow> Inl (PaymentVerificationFailed m)
      | Inr paymentIntent \<Rightarrow> Inr paymentIntent)"

text \<open>
  The verification step of \<open>updateOrderToPaid\<close>: for a stripe order and a truthy
  \<open>paymentIntentId\<close> in the request the intent is retrieved; the request is answered
  with 400 when the retrieval throws or the intent has not succeeded, and the payment
  result is recorded on the order otherwise. \<open>reqIntentId\<close> is
  \<open>req.body.paymentIntentId\<close> (falsy when missing or empty), \<open>userEmail\<close> is
  \<open>req.user.email\<close>.
\<close>

definition recordPayment ::
  "(string \<Rightarrow> string + PaymentIntent) \<Rightarrow> date \<Rightarrow> Order \<Rightarrow> string option \<Rightarrow> string \<Rightarrow> response + Order" where
  "recordPayment stripe_retrieve now order reqIntentId userEmail =
     (if paymentMethod order = ''stripe'' \<and> reqIntentId \<noteq> None \<and> reqIntentId \<noteq> Some []
      then
        (case verifyPaymentIntent stripe_retrieve (the reqIntentId) of
           Inl e \<Rightarrow> Inl (Failure 400 (VerificationFailed e))
         | Inr paymentIntent \<Rightarrow>
             if PaymentIntent.status paymentIntent \<noteq> ''succeeded''
             then Inl (Failure 400 PaymentNotSuccessful)
             else Inr (order\<lparr>paymentResult := Some
                    \<lparr>id' = Some (PaymentIntent.id' paymentIntent),
                     status = Some (PaymentIntent.status paymentIntent),
                     update_time = Some now,
                     email_address = Some
                       (case receipt_email paymentIntent of
                          None \<Rightarrow> userEmail
                        | Some m \<Rightarrow> if m = [] then userEmail else m)\<rparr>\<rparr>))
      else Inr order)"

definition updateOrderToPaid ::
  "(string \<Rightarrow> string + PaymentIntent) \<Rightarrow> date \<Rightarrow> Database \<Rightarrow> objectId \<Rightarrow> string option \<Rightarrow> string \<Rightarrow>
   response \<times> Database" where
  "updateOrderToPaid stripe_retrieve now db orderId reqIntentId userEmail =
     (case findById orderId (orders db) of
        None \<Rightarrow> (Failure 404 OrderNotFound, db)
      | Some order \<Rightarrow>
          if isPaid order then (Failure 400 OrderAlreadyPaid, db)
          else
            (case recordPayment stripe_retrieve now order reqIntentId userEmail of
               Inl r \<Rightarrow> (r, db)
             | Inr order1 \<Rightarrow>
                 let order2 = order1\<lparr>isPaid := True, paidAt := Some now,
                                     orderStatus := ''processing''\<rparr> in
                 (case decreaseStock inStockByStock (orderItems order2) (products db) of
                    (Some e, ps) \<Rightarrow> (errorHandler e, db\<lparr>products := ps\<rparr>)
                  | (None, ps) \<Rightarrow>
                      (case save_order order2 (orders db) of
                         Inl e \<Rightarrow> (errorHandler e, db\<lparr>products := ps\<rparr>)
                       | Inr os \<Rightarrow> (OrderUpdated order2, db\<lparr>products := ps, orders := os\<rparr>)))))"

subsection \<open>Order controller: \<open>updateOrderStatus\<close>\<close>

definition updateOrderStatus :: "date \<Rightarrow> Database \<Rightarrow> objectId \<Rightarrow> string \<Rightarrow> response \<times> Database" where
  "updateOrderStatus now db orderId newStatus =
     (if newStatus \<notin> set validStatuses then (Failure 400 InvalidStatus, db)
      else
        (case findById orderId (orders db) of
           None \<Rightarrow> (Failure 404 OrderNotFound, db)
         | Some order \<Rightarrow>
             let order1 = order\<lparr>orderStatus := newStatus\<rparr>;
                 order2 = (if newStatus = ''delivered''
                           then order1\<lparr>isDelivered := True, deliveredAt := Some now\<rparr>
                           else order1)
             in
             (case save_order order2 (orders db) of
                Inl e \<Rightarrow> (errorHandler e, db)
              | Inr os \<Rightarrow> (OrderUpdated order2, db\<lparr>orders := os\<rparr>))))"

subsection \<open>Webhook controller: \<open>stripeWebhook\<close>\<close>

text \<open>
  The event that \<open>handleWebhook\<close> returns once the signature is verified; \<open>Inl\<close> is
  its exception. Only the event type and the payment intent in \<open>event.data.object\<close>
  are read. The controller imports \<open>handleWebhook\<close> from the Stripe utilities, which do
  not define it: it is a parameter of the model, a function of the webhook secret for
  the request at hand.
\<close>

datatype event =
    PaymentIntentSucceeded PaymentIntent
  | PaymentIntentPaymentFailed PaymentIntent
  | OtherEvent string

text \<open>\<open>Order.findOne({'paymentResult.id': i})\<close>: the first order whose stored payment
  result carries the id.\<close>

definition findOneByPaymentResultId :: "string \<Rightarrow> Order list \<Rightarrow> Order option" where
  "findOneByPaymentResultId i os =
     find (\<lambda>doc. case paymentResult doc of None \<Rightarrow> False | Some r \<Rightarrow> id' r = Some i) os"

text \<open>\<open>if (product.stock <= 0) product.inStock = false\<close>, as the webhook has it.\<close>

definition inStockOffAtZero :: "Product \<Rightarrow> Product" where
  "inStockOffAtZero p = (if js_le (stock p) (Fin 0) then p\<lparr>inStock := False\<rparr> else p)"

text \<open>
  \<open>webhookSecret\<close> is \<open>process.env.STRIPE_WEBHOOK_SECRET\<close>. On a succeeded payment
  the handler assigns \<open>order.status\<close>, which is not a path of \<open>orderSchema\<close>: the
  assignment does not reach the stored document, and \<open>orderStatus\<close> keeps its value.
  Every exception inside the handler is answered with 400.
\<close>

definition stripeWebhook ::
  "(string \<Rightarrow> string + event) \<Rightarrow> date \<Rightarrow> Database \<Rightarrow> string option \<Rightarrow> response \<times> Database" where
  "stripeWebhook handleWebhook now db webhookSecret =
     (if webhookSecret = None \<or> webhookSecret = Some [] then (Failure 500 WebhookSecretNotConfigured, db)
      else
        (case handleWebhook (the webhookSecret) of
           Inl m \<Rightarrow> (Failure 400 WebhookError, db)
         | Inr (PaymentIntentSucceeded paymentIntent) \<Rightarrow>
             (case findOneByPaymentResultId (PaymentIntent.id' paymentIntent) (orders db) of
                None \<Rightarrow> (Received, db)
              | Some order \<Rightarrow>
                  if isPaid order then (Received, db)
                  else
                    let order1 = order\<lparr>isPaid := True, paidAt := Some now,
                                   paymentResult := Some
                                     \<lparr>id' = Some (PaymentIntent.id' paymentIntent),
                                      status = Some ''succeeded'',
                                      update_time = Some now,
                                      email_address = receipt_email paymentIntent\<rparr>\<rparr> in
                    (case decreaseStock inStockOffAtZero (orderItems order1) (products db) of
                       (Some e, ps) \<Rightarrow> (Failure 400 WebhookError, db\<lparr>products := ps\<rparr>)
                     | (None, ps) \<Rightarrow>
                         (case save_order order1 (orders db) of
                            Inl e \<Rightarrow> (Failure 400 WebhookError, db\<lparr>products := ps\<rparr>)
                          | Inr os \<Rightarrow> (Received, db\<lparr>products := ps, orders := os\<rparr>))))
         | Inr (PaymentIntentPaymentFailed failedPayment) \<Rightarrow>
             (case findOneByPaymentResultId (PaymentIntent.id' failedPayment) (orders db) of
                None \<Rightarrow> (Received, db)
              | Some failedOrder \<Rightarrow>
                  (case save_order
                          (failedOrder\<lparr>paymentResult := Some
                             \<lparr>id' = Some (PaymentIntent.id' failedPayment), status = Some ''failed'',
                              update_time = None, email_address = None\<rparr>\<rparr>)
                          (orders db) of
                     Inl e \<Rightarrow> (Failure 400 WebhookError, db)
                   | Inr os \<Rightarrow> (Received, db\<lparr>orders := os\<rparr>)))
         | Inr (OtherEvent t) \<Rightarrow> (Received, db)))"

section \<open>Properties of the stored documents, and concrete states\<close>

text \<open>
  The stored totals of a cart are the sums that the code computes from its items: from
  zero, item after item, each product and each sum rounded to a double.
\<close>

definition cartTotalsConsistent :: "Cart \<Rightarrow> bool" where
  "cartTotalsConsistent c \<longleftrightarrow>
     Cart.totalPrice c =
       foldl (\<lambda>total item. js_add total (js_mul (price item) (quantity item))) (Fin 0) (items c) \<and>
     totalItems c = foldl (\<lambda>total item. js_add total (quantity item)) (Fin 0) (items c)"

text \<open>
  The sums of exact arithmetic over the items, and the carts whose stored totals are
  those sums. The items are whole when every price and every quantity is a natural
  number.
\<close>

definition exactTotalPrice :: "Item list \<Rightarrow> rat" where
  "exactTotalPrice its = (\<Sum>item\<leftarrow>its. val (price item) * val (quantity item))"

definition exactTotalItems :: "Item list \<Rightarrow> rat" where
  "exactTotalItems its = (\<Sum>item\<leftarrow>its. val (quantity item))"

definition cartTotalsExact :: "Cart \<Rightarrow> bool" where
  "cartTotalsExact c \<longleftrightarrow>
     Cart.totalPrice c = Fin (exactTotalPrice (items c)) \<and>
     totalItems c = Fin (exactTotalItems (items c))"

definition wholeItems :: "Item list \<Rightarrow> bool" where
  "wholeItems its = list_all (\<lambda>item. whole (price item) \<and> whole (quantity item)) its"

text \<open>A product with five units in stock, and the empty cart of user 1.\<close>

definition lipstick :: Product where
  "lipstick = \<lparr>Product.name = ''Lipstick'', images = [''https://img/1.jpg''],
               Product.price = Fin 399, stock = Fin 5, inStock = True\<rparr>"

definition emptyCart :: Cart where
  "emptyCart = \<lparr>Cart.user = 1, items = [], totalPrice = Fin 0, totalItems = Fin 0\<rparr>"

text \<open>The cart of user 1 holding two units of product 7, which has since been deleted.\<close>

definition cartWithLipstick :: Cart where
  "cartWithLipstick =
     \<lparr>Cart.user = 1,
      items = [\<lparr>product = 7, name = ''Lipstick'', image = [], price = Fin 399, quantity = Fin 2\<rparr>],
      totalPrice = Fin 798, totalItems = Fin 2\<rparr>"

definition dbProductDeleted :: Database where
  "dbProductDeleted = \<lparr>products = Map.empty, carts = [1 \<mapsto> cartWithLipstick], orders = []\<rparr>"

text \<open>
  The money fields of an order are what the code computes from its items: the sum from
  zero, item after item, the tax as the rounded product with the double \<open>0.1\<close>, and
  every product and sum rounded to a double.
\<close>

definition moneyFieldsOk :: "Order \<Rightarrow> bool" where
  "moneyFieldsOk order \<longleftrightarrow>
     itemsPrice order =
       foldl (\<lambda>total item. js_add total (js_mul (price item) (quantity item))) (Fin 0)
         (orderItems order) \<and>
     taxPrice order = Math_round (js_mul (itemsPrice order) (fl (1 / 10))) \<and>
     shippingPrice order = (if js_gt (itemsPrice order) (Fin 500) then Fin 0 else Fin 50) \<and>
     totalPrice order = js_add (js_add (itemsPrice order) (taxPrice order)) (shippingPrice order)"

text \<open>
  The money fields of exact arithmetic: the sum of \<open>price * quantity\<close>, a tenth of it
  rounded to the nearest integer, and their sum with the shipping price.
\<close>

definition moneyFieldsExact :: "Order \<Rightarrow> bool" where
  "moneyFieldsExact order \<longleftrightarrow>
     itemsPrice order = Fin (exactTotalPrice (orderItems order)) \<and>
     taxPrice order = Fin (of_int \<lfloor>exactTotalPrice (orderItems order) / 10 + 1 / 2\<rfloor>) \<and>
     shippingPrice order = (if 500 < exactTotalPrice (orderItems order) then Fin 0 else Fin 50) \<and>
     totalPrice order =
       Fin (exactTotalPrice (orderItems order) +
            of_int \<lfloor>exactTotalPrice (orderItems order) / 10 + 1 / 2\<rfloor> +
            (if 500 < exactTotalPrice (orderItems order) then 0 else 50))"

text \<open>
  A checkout: user 1 holds two units of product 8 at the snapshot price 500 (a stored
  cart item with an image), ten units are in stock, and the gateway accepts every
  intent. \<open>orderOfSerum\<close> and \<open>dbAfterCheckout\<close> are the order and the database that
  the checkout leaves. In \<open>dbLowStock\<close> a single unit is left in stock. In
  \<open>dbLipstick\<close> the cart is the one that \<open>addItem\<close> builds, its item without an image.
\<close>

definition checkoutAddress :: ShippingAddress where
  "checkoutAddress = \<lparr>ShippingAddress.name = ''Asha'', phone = ''9800000000'', address = ''12 MG Road'',
     city = ''Pune'', state = ''MH'', zipCode = ''411001'', country = None\<rparr>"

definition serum :: Product where
  "serum = \<lparr>Product.name = ''Serum'', images = [''https://img/8.jpg''],
             Product.price = Fin 500, stock = Fin 10, inStock = True\<rparr>"

definition cartWithSerum :: Cart where
  "cartWithSerum =
     \<lparr>Cart.user = 1,
      items = [\<lparr>product = 8, name = ''Serum'', image = ''https://img/8.jpg'', price = Fin 500, quantity = Fin 2\<rparr>],
      totalPrice = Fin 1000, totalItems = Fin 2\<rparr>"

text \<open>
  A history on the empty cart, each mutation against the products of its moment. Two
  lipsticks are added; the price of the lipstick is raised and a third is added; a serum
  is added; nine lipsticks are asked for (more than the stock of five); four are asked
  for; both products are deleted and a quantity of one is asked for; the lipstick is
  removed; a quantity of zero is asked for the serum; two serums are added; the cart is
  cleared. The fourth and the sixth mutation are rejected, the others are stored.
\<close>

definition exampleHistory :: "((objectId \<rightharpoonup> Product) \<times> cartOp) list" where
  "exampleHistory =
     [([7 \<mapsto> lipstick], AddItem 7 (Fin 2)),
      ([7 \<mapsto> lipstick\<lparr>Product.price := Fin 450\<rparr>], AddItem 7 (Fin 1)),
      ([7 \<mapsto> lipstick\<lparr>Product.price := Fin 450\<rparr>, 8 \<mapsto> serum], AddItem 8 (Fin 1)),
      ([7 \<mapsto> lipstick\<lparr>Product.price := Fin 450\<rparr>, 8 \<mapsto> serum], UpdateItemQuantity 7 (Fin 9)),
      ([7 \<mapsto> lipstick\<lparr>Product.price := Fin 450\<rparr>, 8 \<mapsto> serum], UpdateItemQuantity 7 (Fin 4)),
      (Map.empty, UpdateItemQuantity 7 (Fin 1)),
      (Map.empty, RemoveItem 7),
      (Map.empty, UpdateItemQuantity 8 (Fin 0)),
      ([8 \<mapsto> serum], AddItem 8 (Fin 2)),
      (Map.empty, ClearCart)]"

definition exampleStates :: "Cart list" where
  "exampleStates =
     [\<lparr>Cart.user = 1,
       items = [\<lparr>product = 7, name = ''Lipstick'', image = [], price = Fin 399, quantity = Fin 2\<rparr>],
       totalPrice = Fin 798, totalItems = Fin 2\<rparr>,
      \<lparr>Cart.user = 1,
       items = [\<lparr>product = 7, name = ''Lipstick'', image = [], price = Fin 399, quantity = Fin 3\<rparr>],
       totalPrice = Fin 1197, totalItems = Fin 3\<rparr>,
      \<lparr>Cart.user = 1,
       items = [\<lparr>product = 7, name = ''Lipstick'', image = [], price = Fin 399, quantity = Fin 3\<rparr>,
                \<lparr>product = 8, name = ''Serum'', image = [], price = Fin 500, quantity = Fin 1\<rparr>],
       totalPrice = Fin 1697, totalItems = Fin 4\<rparr>,
      \<lparr>Cart.user = 1,
       items = [\<lparr>product = 7, name = ''Lipstick'', image = [], price = Fin 399, quantity = Fin 4\<rparr>,
                \<lparr>product = 8, name = ''Serum'', image = [], price = Fin 500, quantity = Fin 1\<rparr>],
       totalPrice = Fin 2096, totalItems = Fin 5\<rparr>,
      \<lparr>Cart.user = 1,
       items = [\<lparr>product = 8, name = ''Serum'', image = [], price = Fin 500, quantity = Fin 1\<rparr>],
       totalPrice = Fin 500, totalItems = Fin 1\<rparr>,
      \<lparr>Cart.user = 1, items = [], totalPrice = Fin 0, totalItems = Fin 0\<rparr>,
      \<lparr>Cart.user = 1,
       items = [\<lparr>product = 8, name = ''Serum'', image = [], price = Fin 500, quantity = Fin 2\<rparr>],
       totalPrice = Fin 1000, totalItems = Fin 2\<rparr>,
      \<lparr>Cart.user = 1, items = [], totalPrice = Fin 0, totalItems = Fin 0\<rparr>]"

text \<open>
  Two products whose totals are not the exact sums. The price of the sachet is the
  double \<open>0.1\<close>, which is \<open>fl (1 / 10)\<close>; three of them are added to the empty cart.
  The price of the necklace is \<open>2^53\<close>; one necklace and one charm of price 1 are added
  to the empty cart.
\<close>

definition sachet :: Product where
  "sachet = \<lparr>Product.name = ''Sachet'', images = [''https://img/9.jpg''],
              Product.price = Fin (3602879701896397 / 36028797018963968), stock = Fin 10,
              inStock = True\<rparr>"

definition cartOfSachets :: Cart where
  "cartOfSachets =
     \<lparr>Cart.user = 1,
      items = [\<lparr>product = 9, name = ''Sachet'', image = [],
                price = Fin (3602879701896397 / 36028797018963968), quantity = Fin 3\<rparr>],
      totalPrice = Fin (1351079888211149 / 4503599627370496), totalItems = Fin 3\<rparr>"

definition necklace :: Product where
  "necklace = \<lparr>Product.name = ''Necklace'', images = [''https://img/10.jpg''],
                Product.price = Fin 9007199254740992, stock = Fin 1, inStock = True\<rparr>"

definition charm :: Product where
  "charm = \<lparr>Product.name = ''Charm'', images = [''https://img/11.jpg''],
             Product.price = Fin 1, stock = Fin 100, inStock = True\<rparr>"

definition cartOfNecklace :: Cart where
  "cartOfNecklace =
     \<lparr>Cart.user = 1,
      items = [\<lparr>product = 10, name = ''Necklace'', image = [], price = Fin 9007199254740992,
                quantity = Fin 1\<rparr>],
      totalPrice = Fin 9007199254740992, totalItems = Fin 1\<rparr>"

definition cartOfJewels :: Cart where
  "cartOfJewels =
     \<lparr>Cart.user = 1,
      items = [\<lparr>product = 10, name = ''Necklace'', image = [], price = Fin 9007199254740992,
                quantity = Fin 1\<rparr>,
               \<lparr>product = 11, name = ''Charm'', image = [], price = Fin 1, quantity = Fin 1\<rparr>],
      totalPrice = Fin 9007199254740992, totalItems = Fin 2\<rparr>"

definition dbCheckout :: Database where
  "dbCheckout = \<lparr>products = [8 \<mapsto> serum], carts = [1 \<mapsto> cartWithSerum], orders = []\<rparr>"

definition stripeAccepts :: "number \<Rightarrow> string + string \<times> string" where
  "stripeAccepts amount = Inr (''secret_1'', ''pi_1'')"

definition orderOfSerum :: Order where
  "orderOfSerum =
     \<lparr>order_id = 50, user = 1,
      orderItems = [\<lparr>product = 8, name = ''Serum'', image = ''https://img/8.jpg'', price = Fin 500, quantity = Fin 2\<rparr>],
      shippingAddress = checkoutAddress\<lparr>country := Some ''India''\<rparr>,
      paymentMethod = ''stripe'', paymentResult = None, paymentIntentId = Some ''pi_1'',
      itemsPrice = Fin 1000, shippingPrice = Fin 0, taxPrice = Fin 100, totalPrice = Fin 1100,
      isPaid = False, paidAt = None, isDelivered = False, deliveredAt = None,
      orderStatus = ''pending''\<rparr>"

definition dbAfterCheckout :: Database where
  "dbAfterCheckout =
     \<lparr>products = [8 \<mapsto> serum],
      carts = [1 \<mapsto> \<lparr>Cart.user = 1, items = [], totalPrice = Fin 0, totalItems = Fin 0\<rparr>],
      orders = [orderOfSerum]\<rparr>"

definition dbLipstick :: Database where
  "dbLipstick = \<lparr>products = [7 \<mapsto> lipstick], carts = [1 \<mapsto> cartWithLipstick], orders = []\<rparr>"

definition dbLowStock :: Database where
  "dbLowStock = \<lparr>products = [8 \<mapsto> serum\<lparr>stock := Fin 1\<rparr>], carts = [1 \<mapsto> cartWithSerum], orders = []\<rparr>"

text \<open>
  A checkout with prices that are not whole: user 1 holds three toners at \<open>1.4\<close> and
  one balm at \<open>0.8\<close> (the doubles \<open>fl (7 / 5)\<close> and \<open>fl (4 / 5)\<close>). \<open>orderOfToners\<close>
  is the order that the checkout answers with.
\<close>

definition toner :: Product where
  "toner = \<lparr>Product.name = ''Toner'', images = [''https://img/12.jpg''],
             Product.price = Fin (3152519739159347 / 2251799813685248), stock = Fin 10,
             inStock = True\<rparr>"

definition balm :: Product where
  "balm = \<lparr>Product.name = ''Balm'', images = [''https://img/13.jpg''],
            Product.price = Fin (3602879701896397 / 4503599627370496), stock = Fin 10,
            inStock = True\<rparr>"

definition cartOfToners :: Cart where
  "cartOfToners =
     \<lparr>Cart.user = 1,
      items = [\<lparr>product = 12, name = ''Toner'', image = ''https://img/12.jpg'',
                price = Fin (3152519739159347 / 2251799813685248), quantity = Fin 3\<rparr>,
               \<lparr>product = 13, name = ''Balm'', image = ''https://img/13.jpg'',
                price = Fin (3602879701896397 / 4503599627370496), quantity = Fin 1\<rparr>],
      totalPrice = Fin (5629499534213119 / 1125899906842624), totalItems = Fin 4\<rparr>"

definition dbToners :: Database where
  "dbToners = \<lparr>products = [12 \<mapsto> toner, 13 \<mapsto> balm], carts = [1 \<mapsto> cartOfToners], orders = []\<rparr>"

definition orderOfToners :: Order where
  "orderOfToners =
     \<lparr>order_id = 52, user = 1,
      orderItems = [\<lparr>product = 12, name = ''Toner'', image = ''https://img/12.jpg'',
                     price = Fin (3152519739159347 / 2251799813685248), quantity = Fin 3\<rparr>,
                    \<lparr>product = 13, name = ''Balm'', image = ''https://img/13.jpg'',
                     price = Fin (3602879701896397 / 4503599627370496), quantity = Fin 1\<rparr>],
      shippingAddress = checkoutAddress\<lparr>country := Some ''India''\<rparr>,
      paymentMethod = ''stripe'', paymentResult = None, paymentIntentId = Some ''pi_1'',
      itemsPrice = Fin (5629499534213119 / 1125899906842624), shippingPrice = Fin 50,
      taxPrice = Fin 0, totalPrice = Fin 55,
      isPaid = False, paidAt = None, isDelivered = False, deliveredAt = None,
      orderStatus = ''pending''\<rparr>"

text \<open>
  The gateway reports the intent it is asked about as succeeded. \<open>orderOfSerumPaid\<close>
  and \<open>dbPaid\<close> are the order and the database after the payment of \<open>orderOfSerum\<close>
  is confirmed at time 200: two of the ten units have left the stock.
\<close>

definition stripeSucceeded :: "string \<Rightarrow> string + PaymentIntent" where
  "stripeSucceeded intentId =
     Inr \<lparr>PaymentIntent.id' = intentId, status = ''succeeded'', receipt_email = None\<rparr>"

definition orderOfSerumPaid :: Order where
  "orderOfSerumPaid =
     orderOfSerum\<lparr>paymentResult := Some \<lparr>id' = Some ''pi_1'', status = Some ''succeeded'',
                                          update_time = Some 200,
                                          email_address = Some ''asha@example.com''\<rparr>,
                  isPaid := True, paidAt := Some 200, orderStatus := ''processing''\<rparr>"

definition dbPaid :: Database where
  "dbPaid =
     \<lparr>products = [8 \<mapsto> serum\<lparr>stock := Fin 8\<rparr>],
      carts = [1 \<mapsto> \<lparr>Cart.user = 1, items = [], totalPrice = Fin 0, totalItems = Fin 0\<rparr>],
      orders = [orderOfSerumPaid]\<rparr>"

text \<open>
  The webhook event for the succeeded intent \<open>pi_1\<close>, and a database in which the
  order of the checkout carries a failed payment result for that intent.
\<close>

definition handleSucceeded :: "string \<Rightarrow> string + event" where
  "handleSucceeded secret =
     Inr (PaymentIntentSucceeded
            \<lparr>PaymentIntent.id' = ''pi_1'', status = ''succeeded'', receipt_email = None\<rparr>)"

definition orderOfSerumFailed :: Order where
  "orderOfSerumFailed =
     orderOfSerum\<lparr>paymentResult := Some \<lparr>id' = Some ''pi_1'', status = Some ''failed'',
                                          update_time = None, email_address = None\<rparr>\<rparr>"

definition dbPaymentFailed :: Database where
  "dbPaymentFailed = dbAfterCheckout\<lparr>orders := [orderOfSerumFailed]\<rparr>"

text \<open>
  What a cart item keeps of the product it was added from: the id, the name, the image
  and the price.
\<close>

definition snapshot :: "Item \<Rightarrow> objectId \<times> string \<times> string \<times> number" where
  "snapshot item = (product item, name item, image item, price item)"

text \<open>The database of the checkout after the price of product 8 is raised from 500 to 650.\<close>

definition dbPriceRaised :: Database where
  "dbPriceRaised = dbCheckout\<lparr>products := [8 \<mapsto> serum\<lparr>Product.price := Fin 650\<rparr>]\<rparr>"

text \<open>The cart of the checkout after one more serum is added at the raised price.\<close>

definition cartWithThreeSerums :: Cart where
  "cartWithThreeSerums =
     \<lparr>Cart.user = 1,
      items = [\<lparr>product = 8, name = ''Serum'', image = ''https://img/8.jpg'', price = Fin 500, quantity = Fin 3\<rparr>],
      totalPrice = Fin 1500, totalItems = Fin 3\<rparr>"

subsection \<open>Histories of requests\<close>

text \<open>
  The requests that write the database. Orders are written by \<open>createOrder\<close>,
  \<open>updateOrderToPaid\<close>, \<open>updateOrderStatus\<close> and \<open>stripeWebhook\<close> only; every other
  endpoint (of the cart, wishlist, product and admin controllers) writes carts and
  products at most, which \<open>OtherWrite\<close> leaves open. \<open>perform\<close> is the database after a
  request, \<open>foldl perform\<close> the database after a history of them.
\<close>

datatype action =
    CreateOrder "number \<Rightarrow> string + string \<times> string" date objectId objectId
      "ShippingAddress option" "string option"
  | UpdateOrderToPaid "string \<Rightarrow> string + PaymentIntent" date objectId "string option" string
  | UpdateOrderStatus date objectId string
  | StripeWebhook "string \<Rightarrow> string + event" date "string option"
  | UpdateCartItem objectId objectId number
  | UpdateProduct objectId "number option" "number option"
  | OtherWrite "objectId \<rightharpoonup> Product" "objectId \<rightharpoonup> Cart"

fun perform :: "Database \<Rightarrow> action \<Rightarrow> Database" where
  "perform db (CreateOrder stripe_create now newId userId reqAddress reqMethod) =
     snd (createOrder stripe_create now newId db userId reqAddress reqMethod)"
| "perform db (UpdateOrderToPaid stripe_retrieve now orderId reqIntentId userEmail) =
     snd (updateOrderToPaid stripe_retrieve now db orderId reqIntentId userEmail)"
| "perform db (UpdateOrderStatus now orderId newStatus) =
     snd (updateOrderStatus now db orderId newStatus)"
| "perform db (StripeWebhook handleWebhook now webhookSecret) =
     snd (stripeWebhook handleWebhook now db webhookSecret)"
| "perform db (UpdateCartItem userId productId qty) = snd (updateCartItem db userId productId qty)"
| "perform db (UpdateProduct pid newPrice newStock) = snd (updateProduct db pid newPrice newStock)"
| "perform db (OtherWrite ps cs) = db\<lparr>products := ps, carts := cs\<rparr>"

text \<open>
  The documents under the id \<open>i\<close> exist, are paid and carry no payment result.
\<close>

definition paidOnDelivery :: "objectId \<Rightarrow> Order list \<Rightarrow> bool" where
  "paidOnDelivery i os \<longleftrightarrow>
     filter (\<lambda>doc. order_id doc = i) os \<noteq> [] \<and>
     list_all (\<lambda>doc. isPaid doc \<and> paymentResult doc = None) (filter (\<lambda>doc. order_id doc = i) os)"

text \<open>
  The checkout of \<open>dbCheckout\<close> with cash on delivery at time 100, and three later
  requests: the order is shipped, the gateway's webhook arrives, a payment
  confirmation is asked for.
\<close>

definition orderOnDelivery :: Order where
  "orderOnDelivery =
     \<lparr>order_id = 51, user = 1,
      orderItems = [\<lparr>product = 8, name = ''Serum'', image = ''https://img/8.jpg'', price = Fin 500, quantity = Fin 2\<rparr>],
      shippingAddress = checkoutAddress\<lparr>country := Some ''India''\<rparr>,
      paymentMethod = ''cod'', paymentResult = None, paymentIntentId = None,
      itemsPrice = Fin 1000, shippingPrice = Fin 0, taxPrice = Fin 100, totalPrice = Fin 1100,
      isPaid = True, paidAt = Some 100, isDelivered = False, deliveredAt = None,
      orderStatus = ''processing''\<rparr>"

definition dbOnDelivery :: Database where
  "dbOnDelivery =
     \<lparr>products = [8 \<mapsto> serum],
      carts = [1 \<mapsto> \<lparr>Cart.user = 1, items = [], totalPrice = Fin 0, totalItems = Fin 0\<rparr>],
      orders = [orderOnDelivery]\<rparr>"

definition laterActions :: "action list" where
  "laterActions =
     [UpdateOrderStatus 150 51 ''shipped'',
      StripeWebhook handleSucceeded 160 (Some ''whsec_1''),
      UpdateOrderToPaid stripeSucceeded 170 51 (Some ''pi_1'') ''asha@example.com'']"

section \<open>Theorems\<close>

subsection \<open>Rounding\<close>

text \<open>
  The binary exponent brackets a positive rational, and a whole number of magnitude up
  to \<open>2^53\<close> is a double: rounding leaves it as it is.
\<close>

lemma binexp_bounds:
  assumes "0 < a"
  shows "2 powi (binexp a) \<le> a \<and> a < 2 powi (binexp a + 1)"
proof -
  obtain p q where pq: "quotient_of a = (p, q)" by (cases "quotient_of a")
  then have q: "0 < q" and a: "a = of_int p / of_int q"
    by (auto dest: quotient_of_denom_pos quotient_of_div)
  with assms have p: "0 < p" by (simp add: zero_less_divide_iff)
  define k where "k = bitlen p - bitlen q"
  from bitlen_bounds [OF p] have p1: "(2::int) ^ nat (bitlen p - 1) \<le> p" and p2: "p < 2 ^ nat (bitlen p)" by auto
  from bitlen_bounds [OF q] have q1: "(2::int) ^ nat (bitlen q - 1) \<le> q" and q2: "q < 2 ^ nat (bitlen q)" by auto
  have bp: "1 \<le> bitlen p" and bq: "1 \<le> bitlen q"
    using p q by (auto simp: bitlen_alt_def)
  have P1: "(2::rat) powi (bitlen p - 1) \<le> of_int p"
  proof -
    have "(2::rat) powi (bitlen p - 1) = of_int (2 ^ nat (bitlen p - 1))"
      using bp by (simp add: power_int_def)
    also have "\<dots> \<le> of_int p" using p1 by (simp only: of_int_le_iff)
    finally show ?thesis .
  qed
  have P2: "of_int p < (2::rat) powi (bitlen p)"
  proof -
    have "(of_int p :: rat) < of_int (2 ^ nat (bitlen p))" using p2 by (simp only: of_int_less_iff)
    also have "\<dots> = 2 powi (bitlen p)" using bp by (simp add: power_int_def)
    finally show ?thesis .
  qed
  have Q1: "(2::rat) powi (bitlen q - 1) \<le> of_int q"
  proof -
    have "(2::rat) powi (bitlen q - 1) = of_int (2 ^ nat (bitlen q - 1))"
      using bq by (simp add: power_int_def)
    also have "\<dots> \<le> of_int q" using q1 by (simp only: of_int_le_iff)
    finally show ?thesis .
  qed
  have Q2: "of_int q < (2::rat) powi (bitlen q)"
  proof -
    have "(of_int q :: rat) < of_int (2 ^ nat (bitlen q))" using q2 by (simp only: of_int_less_iff)
    also have "\<dots> = 2 powi (bitlen q)" using bq by (simp add: power_int_def)
    finally show ?thesis .
  qed
  have qpos: "(0::rat) < of_int q" using q by simp
  have lower: "(2::rat) powi (k - 1) < a"
  proof -
    have "(2::rat) powi (k - 1) * of_int q < 2 powi (k - 1) * 2 powi (bitlen q)"
      using Q2 by (intro mult_strict_left_mono) auto
    also have "\<dots> = 2 powi (bitlen p - 1)"
      by (simp add: k_def power_int_add [symmetric])
    also have "\<dots> \<le> of_int p" by (rule P1)
    finally show ?thesis using qpos by (simp add: a pos_less_divide_eq)
  qed
  have upper: "a < (2::rat) powi (k + 1)"
  proof -
    have "of_int p < (2::rat) powi (bitlen p)" by (rule P2)
    also have "\<dots> = 2 powi (k + 1) * 2 powi (bitlen q - 1)"
      by (simp add: k_def power_int_add [symmetric])
    also have "\<dots> \<le> 2 powi (k + 1) * of_int q"
      using Q1 by (intro mult_left_mono) auto
    finally show ?thesis using qpos by (simp add: a pos_divide_less_eq)
  qed
  have be: "binexp a = (if a < 2 powi k then k - 1 else k)"
    by (simp add: binexp_def pq k_def Let_def)
  show ?thesis
  proof (cases "a < 2 powi k")
    case True
    with be lower show ?thesis by simp
  next
    case False
    with be upper show ?thesis by simp
  qed
qed

lemma binexp_unique:
  assumes "0 < a" and "2 powi k \<le> a" and "a < 2 powi (k + 1)"
  shows "binexp a = k"
proof -
  from binexp_bounds [OF assms(1)]
  have b1: "2 powi (binexp a) \<le> a" and b2: "a < 2 powi (binexp a + 1)" by auto
  have "k < binexp a + 1"
  proof (rule ccontr)
    assume "\<not> k < binexp a + 1"
    then have "(2::rat) powi (binexp a + 1) \<le> 2 powi k"
      by (intro power_int_increasing) auto
    with assms(2) b2 show False by simp
  qed
  moreover have "binexp a < k + 1"
  proof (rule ccontr)
    assume "\<not> binexp a < k + 1"
    then have "(2::rat) powi (k + 1) \<le> 2 powi (binexp a)"
      by (intro power_int_increasing) auto
    with assms(3) b1 show False by simp
  qed
  ultimately show ?thesis by simp
qed

lemma roundToEven_of_int [simp]: "roundToEven (of_int n) = n"
  by (simp add: roundToEven_def)

lemma roundToEven_bounds: "\<lfloor>q\<rfloor> \<le> roundToEven q \<and> roundToEven q \<le> \<lfloor>q\<rfloor> + 1"
  by (simp add: roundToEven_def Let_def)

lemma roundToEven_error: "\<bar>of_int (roundToEven q) - q\<bar> \<le> 1 / 2"
proof -
  have "of_int \<lfloor>q\<rfloor> \<le> q" "q < of_int \<lfloor>q\<rfloor> + 1" by linarith+
  then show ?thesis
    by (auto simp: roundToEven_def Let_def abs_le_iff)
qed

text \<open>
  Rounding in the normal range: with \<open>2^k \<le> x < 2^(k+1)\<close> the double is the multiple of
  \<open>2^(k-52)\<close> nearest to \<open>x\<close>. The two forms below are the same fact for a spacing
  \<open>1 / 2^n\<close> and for a spacing \<open>2^n\<close>, ready for evaluation.
\<close>

lemma fl_normal:
  assumes "2 powi k \<le> x" and "x < 2 powi (k + 1)" and "- 1022 \<le> k" and "k \<le> 1022"
  shows "fl x = Fin (of_int (roundToEven (x / 2 powi (k - 52))) * 2 powi (k - 52))"
proof -
  have pos: "0 < x" using assms(1) by (rule less_le_trans [OF zero_less_power_int, rotated]) simp
  then have ax: "\<bar>x\<bar> = x" by simp
  from binexp_unique [OF pos assms(1,2)] have k: "binexp x = k" .
  define e where "e = k - 52"
  have e: "max (binexp \<bar>x\<bar> - 52) (- 1074) = e" using assms(3) by (simp add: ax k e_def)
  define q where "q = x / 2 powi e"
  have pe: "(0::rat) < 2 powi e" by simp
  have "q < 2 powi (k + 1) / 2 powi e"
    unfolding q_def using assms(2) pe by (simp add: divide_strict_right_mono)
  also have "2 powi (k + 1) / 2 powi e = (2::rat) powi 53"
    by (simp add: e_def power_int_diff [symmetric])
  finally have q53: "q < 2 ^ 53" by simp
  then have "\<lfloor>q\<rfloor> < 2 ^ 53" by (simp add: floor_less_iff)
  with roundToEven_bounds [of q] have m53: "roundToEven q \<le> 2 ^ 53" by linarith
  have "(of_int (roundToEven q) :: rat) \<le> of_int (2 ^ 53)" using m53 by (simp only: of_int_le_iff)
  then have "of_int (roundToEven q) * 2 powi e \<le> (2 ^ 53 :: rat) * 2 powi e"
    using pe by (simp add: mult_right_mono)
  also have "(2 ^ 53 :: rat) * 2 powi e = 2 powi (k + 1)"
  proof -
    have "(2::rat) powi (53 + e) = 2 powi 53 * 2 powi e" by (rule power_int_add) simp
    moreover have "53 + e = k + 1" by (simp add: e_def)
    moreover have "(2::rat) powi 53 = 2 ^ 53" by simp
    ultimately show ?thesis by metis
  qed
  also have "(2::rat) powi (k + 1) \<le> 2 powi 1023"
    using assms(4) by (intro power_int_increasing) auto
  also have "(2::rat) powi 1023 < 2 powi 1024"
    by (intro power_int_strict_increasing) auto
  finally have "of_int (roundToEven q) * 2 powi e < (2::rat) powi 1024" .
  then have small: "\<not> (2::rat) powi 1024 \<le> of_int (roundToEven q) * 2 powi e"
    by (simp only: not_le)
  from pos have nz: "x \<noteq> 0" by simp
  have e': "max (binexp x - 52) (- 1074) = k - 52" using assms(3) by (simp add: k)
  from nz pos small [unfolded q_def e_def] show ?thesis by (simp add: fl_def Let_def e')
qed

lemma fl_frac:
  assumes "2 ^ 52 \<le> x * 2 ^ n" and "x * 2 ^ n < 2 ^ 53" and "n \<le> 1074"
  shows "fl x = Fin (of_int (roundToEven (x * 2 ^ n)) / 2 ^ n)"
proof -
  define k where "k = 52 - int n"
  have k1: "k + 1 = 53 - int n" and k52: "k - 52 = - int n" by (simp_all add: k_def)
  have pk: "(2::rat) powi k = 2 ^ 52 / 2 ^ n" unfolding k_def by (simp add: power_int_diff)
  have pk1: "(2::rat) powi (k + 1) = 2 ^ 53 / 2 ^ n" unfolding k1 by (simp add: power_int_diff)
  have pe: "(2::rat) powi (k - 52) = 1 / 2 ^ n" unfolding k52 by (simp add: power_int_minus field_simps)
  have "2 powi k \<le> x" using assms(1) unfolding pk by (simp add: field_simps)
  moreover have "x < 2 powi (k + 1)" using assms(2) unfolding pk1 by (simp add: field_simps)
  moreover have "- 1022 \<le> k" "k \<le> 1022" using assms(3) by (simp_all add: k_def)
  ultimately have "fl x = Fin (of_int (roundToEven (x / 2 powi (k - 52))) * 2 powi (k - 52))"
    by (rule fl_normal)
  then show ?thesis unfolding pe by simp
qed

lemma fl_big:
  assumes "2 ^ 52 \<le> x / 2 ^ n" and "x / 2 ^ n < 2 ^ 53" and "n \<le> 970"
  shows "fl x = Fin (of_int (roundToEven (x / 2 ^ n)) * 2 ^ n)"
proof -
  define k where "k = 52 + int n"
  have k1: "k + 1 = 53 + int n" and k52: "k - 52 = int n" by (simp_all add: k_def)
  have pk: "(2::rat) powi k = 2 ^ 52 * 2 ^ n" unfolding k_def by (simp add: power_int_add)
  have pk1: "(2::rat) powi (k + 1) = 2 ^ 53 * 2 ^ n" unfolding k1 by (simp add: power_int_add)
  have pe: "(2::rat) powi (k - 52) = 2 ^ n" unfolding k52 by simp
  have "2 powi k \<le> x" using assms(1) unfolding pk by (simp add: field_simps)
  moreover have "x < 2 powi (k + 1)" using assms(2) unfolding pk1 by (simp add: field_simps)
  moreover have "- 1022 \<le> k" "k \<le> 1022" using assms(3) by (simp_all add: k_def)
  ultimately have "fl x = Fin (of_int (roundToEven (x / 2 powi (k - 52))) * 2 powi (k - 52))"
    by (rule fl_normal)
  then show ?thesis unfolding pe by simp
qed

lemma fl_of_int:
  assumes "\<bar>n\<bar> \<le> 2 ^ 53"
  shows "fl (of_int n) = Fin (of_int n)"
proof (cases "n = 0")
  case True
  then show ?thesis by (simp add: fl_def)
next
  case False
  define a :: rat where "a = \<bar>of_int n\<bar>"
  have a_int: "a = of_int \<bar>n\<bar>" by (simp add: a_def)
  have a1: "1 \<le> a" using False by (simp add: a_int)
  then have apos: "0 < a" by simp
  have a53: "a \<le> 2 ^ 53"
  proof -
    have "(of_int \<bar>n\<bar> :: rat) \<le> of_int (2 ^ 53)" using assms by (simp only: of_int_le_iff)
    then show ?thesis by (simp add: a_int)
  qed
  define k where "k = binexp a"
  from binexp_bounds [OF apos] have b1: "2 powi k \<le> a" and b2: "a < 2 powi (k + 1)"
    by (auto simp: k_def)
  have k0: "0 \<le> k"
  proof (rule ccontr)
    assume "\<not> 0 \<le> k"
    then have "(2::rat) powi (k + 1) \<le> 2 powi 0" by (intro power_int_increasing) auto
    with b2 a1 show False by simp
  qed
  have k53: "k \<le> 53"
  proof (rule ccontr)
    assume "\<not> k \<le> 53"
    then have "(2::rat) powi 54 \<le> 2 powi k" by (intro power_int_increasing) auto
    with b1 a53 show False by simp
  qed
  define e where "e = max (k - 52) (- 1074)"
  have e: "e = k - 52" using k0 by (simp add: e_def)
  have scaled: "\<exists>j. a / 2 powi e = of_int j"
  proof (cases "k \<le> 52")
    case True
    then have "e = - int (nat (52 - k))" using e by simp
    then have "(2::rat) powi e = inverse (2 ^ nat (52 - k))"
      by (simp only: power_int_minus power_int_of_nat)
    then have "a / 2 powi e = a * 2 ^ nat (52 - k)"
      by (simp add: field_simps)
    also have "\<dots> = of_int (\<bar>n\<bar> * 2 ^ nat (52 - k))" by (simp add: a_int)
    finally show ?thesis by blast
  next
    case False
    with k53 have k: "k = 53" by simp
    with b1 a53 have "a = 2 ^ 53" by simp
    with k e have "a / 2 powi e = of_int (2 ^ 52)" by simp
    then show ?thesis by blast
  qed
  then obtain j where j: "a / 2 powi e = of_int j" by blast
  have pw: "(2::rat) powi e \<noteq> 0" by simp
  have y: "of_int (roundToEven (a / 2 powi e)) * 2 powi e = a"
    using j pw by (simp add: field_simps)
  have small: "\<not> (2::rat) powi 1024 \<le> a" using a53 by simp
  have nz: "(of_int n :: rat) \<noteq> 0" using False by simp
  have "fl (of_int n) = Fin (sgn (of_int n) * a)"
    using nz y small unfolding fl_def Let_def a_def [symmetric] k_def [symmetric] e_def [symmetric]
    by simp
  also have "sgn (of_int n :: rat) * a = of_int n"
    by (simp add: a_def sgn_mult_abs)
  finally show ?thesis .
qed

lemma fl_numeral [simp]: "numeral w \<le> (2::int) ^ 53 \<Longrightarrow> fl (numeral w) = Fin (numeral w)"
  using fl_of_int [of "numeral w"] by simp

lemma fl_0 [simp]: "fl 0 = Fin 0" by (simp add: fl_def)
lemma fl_1 [simp]: "fl 1 = Fin 1" using fl_of_int [of 1] by simp

lemma fl_Nats:
  assumes "r \<in> \<nat>" and "r \<le> 2 ^ 53"
  shows "fl r = Fin r"
proof -
  from assms(1) obtain n where r: "r = of_int (int n)" by (auto elim: Nats_cases)
  with assms(2) have "(of_int (int n) :: rat) \<le> of_int (2 ^ 53)" by simp
  then have "int n \<le> 2 ^ 53" by (simp only: of_int_le_iff)
  then have "\<bar>int n\<bar> \<le> 2 ^ 53" by simp
  from fl_of_int [OF this] r show ?thesis by simp
qed

lemma Nats_nonneg: "(r::rat) \<in> \<nat> \<Longrightarrow> 0 \<le> r"
  by (auto elim: Nats_cases)

lemma whole_cases: "whole n \<Longrightarrow> \<exists>r. n = Fin r \<and> r \<in> \<nat>"
proof (cases n)
  case (Fin r)
  assume "whole n"
  with Fin have r: "0 \<le> r" "of_int \<lfloor>r\<rfloor> = r" by simp_all
  from r(1) have "0 \<le> \<lfloor>r\<rfloor>" by simp
  then have "(of_int \<lfloor>r\<rfloor> :: rat) \<in> \<nat>" by (simp add: Nats_altdef1)
  then have "r \<in> \<nat>" by (simp only: r(2))
  with Fin show ?thesis by simp
qed simp_all

lemma floor_numeral_div:
  "\<lfloor>(numeral a :: rat) / numeral b\<rfloor> = numeral a div numeral b"
  using floor_divide_of_int_eq [of "numeral a" "numeral b", where ?'a = rat] by simp

lemmas round_simps = roundToEven_def Let_def floor_numeral_div

text \<open>The double \<open>0.1\<close>.\<close>

lemma fl_tenth: "fl (1 / 10) = Fin (3602879701896397 / 36028797018963968)"
  by (simp add: fl_frac [where n = 56] round_simps)

text \<open>A tenth of 1000 and of 400, as the code computes them.\<close>

lemma tenth_of_1000: "js_mul (Fin 1000) (fl (1 / 10)) = Fin 100"
  by (simp add: fl_tenth fl_frac [where n = 46] round_simps)

lemma tenth_of_400: "js_mul (Fin 400) (fl (1 / 10)) = Fin 40"
  by (simp add: fl_tenth fl_frac [where n = 47] round_simps)

text \<open>
  A tenth of a whole number up to \<open>2^40\<close>, as the code computes and rounds it, is the
  tenth rounded to the nearest integer, a half upwards: the double \<open>0.1\<close> exceeds a tenth
  by \<open>1 / (5 * 2^55)\<close>, the product is rounded by at most \<open>2^(-17)\<close>, and a product
  that should be a half-integer is not rounded below it. Further up the rounding can
  cross a half: a tenth of \<open>9007199254740984\<close> is computed as \<open>900719925474098.5\<close>.
\<close>

lemma tenth_split: "(3602879701896397 / 36028797018963968 :: rat) = 1 / 10 + 1 / (5 * 2 ^ 55)"
  by simp

lemma tenth_of_whole:
  assumes "n \<in> \<nat>" and "n \<le> 2 ^ 40"
  shows "Math_round (js_mul (Fin n) (fl (1 / 10))) = Fin (of_int \<lfloor>n / 10 + 1 / 2\<rfloor>)"
proof (cases "n = 0")
  case True
  then show ?thesis by (simp add: fl_tenth)
next
  case False
  from assms(1) obtain N where N: "n = of_nat N" by (auto elim: Nats_cases)
  with False have n1: "1 \<le> n" by (cases N) simp_all
  define x where "x = n * (3602879701896397 / 36028797018963968)"
  have x_eq: "x = n / 10 + n / (5 * 2 ^ 55)"
    unfolding x_def tenth_split by (simp add: field_simps)
  have x_lo: "n / 10 < x" using n1 by (simp add: x_eq)
  have "n / (5 * 2 ^ 55) \<le> 2 ^ 40 / (5 * 2 ^ 55)"
    using assms(2) by (simp add: divide_right_mono)
  then have x_hi: "x \<le> n / 10 + 1 / 163840" by (simp add: x_eq)
  have xpos: "0 < x" using x_lo n1 by linarith
  define k where "k = binexp x"
  from binexp_bounds [OF xpos] have b1: "2 powi k \<le> x" and b2: "x < 2 powi (k + 1)"
    by (simp_all add: k_def)
  have k_lo: "- 4 \<le> k"
  proof (rule ccontr)
    assume "\<not> - 4 \<le> k"
    then have "(2::rat) powi (k + 1) \<le> 2 powi (- 4)" by (intro power_int_increasing) auto
    with b2 have "x < 1 / 16" by (simp add: power_int_minus)
    with x_lo n1 show False by linarith
  qed
  have k_hi: "k \<le> 36"
  proof (rule ccontr)
    assume "\<not> k \<le> 36"
    then have "(2::rat) powi 37 \<le> 2 powi k" by (intro power_int_increasing) auto
    with b1 have "2 ^ 37 \<le> x" by simp
    with x_hi assms(2) show False by simp
  qed
  define u :: rat where "u = 2 powi (k - 52)"
  have upos: "0 < u" by (simp add: u_def)
  have "u \<le> 2 powi (- 16)" unfolding u_def using k_hi by (intro power_int_increasing) auto
  then have u_hi: "u \<le> 1 / 65536" by (simp add: power_int_minus)
  define m where "m = roundToEven (x / u)"
  define y where "y = of_int m * u"
  from fl_normal [OF b1 b2] k_lo k_hi have fl_x: "fl x = Fin y"
    by (simp add: y_def m_def u_def)
  have "\<bar>of_int m - x / u\<bar> \<le> 1 / 2" unfolding m_def by (rule roundToEven_error)
  then have "\<bar>of_int m - x / u\<bar> * u \<le> 1 / 2 * u" using upos by (simp add: mult_right_mono)
  moreover have "\<bar>of_int m - x / u\<bar> * u = \<bar>y - x\<bar>"
  proof -
    have "(of_int m - x / u) * u = y - x" using upos by (simp add: y_def field_simps)
    then have "\<bar>y - x\<bar> = \<bar>of_int m - x / u\<bar> * \<bar>u\<bar>" by (simp only: abs_mult [symmetric])
    with upos show ?thesis by simp
  qed
  ultimately have "\<bar>y - x\<bar> \<le> 1 / 131072" using u_hi by linarith
  then have err: "y - x \<le> 1 / 131072" "x - y \<le> 1 / 131072" by linarith+
  define K where "K = (N + 5) div 10"
  define r where "r = (N + 5) mod 10"
  have r9: "r \<le> 9" by (simp add: r_def)
  have "N + 5 = 10 * K + r" by (simp add: K_def r_def)
  then have "(of_nat (N + 5) :: rat) = of_nat (10 * K + r)" by simp
  then have split: "n / 10 + 1 / 2 = of_nat K + of_nat r / 10"
    by (simp add: N field_simps)
  have r9': "(of_nat r :: rat) \<le> 9" using r9 by (metis of_nat_le_iff of_nat_numeral)
  have r0: "(0::rat) \<le> of_nat r" by simp
  have exact: "\<lfloor>n / 10 + 1 / 2\<rfloor> = int K"
    unfolding split using r9' r0 by (intro floor_unique) auto
  have upper: "y + 1 / 2 < of_nat K + 1"
    using err(1) x_hi split r9' by linarith
  have lower: "of_nat K \<le> y + 1 / 2"
  proof (cases "r = 0")
    case False
    then have "1 \<le> r" by simp
    then have "(1::rat) \<le> of_nat r" by (metis of_nat_1 of_nat_le_iff)
    with err(2) x_lo split show ?thesis by linarith
  next
    case True
    with split have h: "n / 10 = of_nat K - 1 / 2" by simp
    define e where "e = nat (51 - k)"
    have "(2::rat) powi (52 - k) = 2 powi (1 + int e)"
      using k_hi by (simp add: e_def)
    also have "\<dots> = 2 * 2 ^ e" by (simp add: power_int_add)
    finally have inv_u: "1 / u = 2 * 2 ^ e"
      by (simp add: u_def power_int_diff field_simps)
    have "(n / 10) / u = (of_nat K - 1 / 2) * (1 / u)" by (simp add: h)
    also have "\<dots> = of_int ((2 * int K - 1) * 2 ^ e)" by (simp add: inv_u algebra_simps)
    finally have lattice: "(n / 10) / u = of_int ((2 * int K - 1) * 2 ^ e)" .
    have "n / 10 \<le> x" using x_lo by (rule less_imp_le)
    then have "(n / 10) / u \<le> x / u" using upos by (intro divide_right_mono) simp_all
    then have "(2 * int K - 1) * 2 ^ e \<le> \<lfloor>x / u\<rfloor>" unfolding lattice by (simp add: le_floor_iff)
    with roundToEven_bounds [of "x / u"] have "(2 * int K - 1) * 2 ^ e \<le> m"
      by (simp add: m_def)
    then have "(of_int ((2 * int K - 1) * 2 ^ e) :: rat) \<le> of_int m" by (simp only: of_int_le_iff)
    then have "of_int ((2 * int K - 1) * 2 ^ e) * u \<le> of_int m * u"
      using upos by (simp add: mult_right_mono)
    then have "n / 10 \<le> y" unfolding lattice [symmetric] y_def using upos by simp
    with h show ?thesis by linarith
  qed
  have "\<lfloor>y + 1 / 2\<rfloor> = int K" using lower upper by (intro floor_unique) auto
  with exact fl_x show ?thesis by (simp add: fl_tenth x_def)
qed

lemma tenth_of_large_whole:
  "Math_round (js_mul (Fin 9007199254740984) (fl (1 / 10))) = Fin 900719925474099 \<and>
   \<lfloor>(9007199254740984 :: rat) / 10 + 1 / 2\<rfloor> = 900719925474098"
  by (simp add: fl_tenth fl_frac [where n = 3] round_simps)

subsection \<open>Cart totals\<close>

lemma exactTotalPrice_Nats: "wholeItems its \<Longrightarrow> exactTotalPrice its \<in> \<nat>"
  by (induction its) (auto simp: wholeItems_def exactTotalPrice_def dest!: whole_cases)

lemma exactTotalItems_Nats: "wholeItems its \<Longrightarrow> exactTotalItems its \<in> \<nat>"
  by (induction its) (auto simp: wholeItems_def exactTotalItems_def dest!: whole_cases)

lemma foldl_totalPrice_whole:
  assumes "wholeItems its" and "a \<in> \<nat>" and "a + exactTotalPrice its \<le> 2 ^ 53"
  shows "foldl (\<lambda>total item. js_add total (js_mul (price item) (quantity item))) (Fin a) its =
           Fin (a + exactTotalPrice its)"
  using assms
proof (induction its arbitrary: a)
  case Nil
  then show ?case by (simp add: exactTotalPrice_def)
next
  case (Cons item its)
  from Cons.prems(1) have rest: "wholeItems its" and w: "whole (price item)" "whole (quantity item)"
    by (simp_all add: wholeItems_def)
  from w obtain p q where pq: "price item = Fin p" "quantity item = Fin q" "p \<in> \<nat>" "q \<in> \<nat>"
    by (auto dest!: whole_cases)
  have total: "exactTotalPrice (item # its) = p * q + exactTotalPrice its"
    by (simp add: exactTotalPrice_def pq)
  have prod: "p * q \<in> \<nat>" using pq by (simp add: Nats_mult)
  from exactTotalPrice_Nats [OF rest] have nn: "0 \<le> exactTotalPrice its" by (rule Nats_nonneg)
  from Cons.prems(2) have a0: "0 \<le> a" by (rule Nats_nonneg)
  from prod have pq0: "0 \<le> p * q" by (rule Nats_nonneg)
  from Cons.prems(3) total nn a0 pq0 have le: "p * q \<le> 2 ^ 53" "a + p * q \<le> 2 ^ 53" by linarith+
  have acc: "a + p * q \<in> \<nat>" using Cons.prems(2) prod by (rule Nats_add)
  have "js_add (Fin a) (js_mul (price item) (quantity item)) = Fin (a + p * q)"
    using fl_Nats [OF prod le(1)] fl_Nats [OF acc le(2)] by (simp add: pq)
  moreover from Cons.prems(3) total have "a + p * q + exactTotalPrice its \<le> 2 ^ 53" by simp
  ultimately show ?case
    using Cons.IH [OF rest acc] total by (simp add: add.assoc)
qed

lemma foldl_totalItems_whole:
  assumes "wholeItems its" and "a \<in> \<nat>" and "a + exactTotalItems its \<le> 2 ^ 53"
  shows "foldl (\<lambda>total item. js_add total (quantity item)) (Fin a) its = Fin (a + exactTotalItems its)"
  using assms
proof (induction its arbitrary: a)
  case Nil
  then show ?case by (simp add: exactTotalItems_def)
next
  case (Cons item its)
  from Cons.prems(1) have rest: "wholeItems its" and w: "whole (quantity item)"
    by (simp_all add: wholeItems_def)
  from w obtain q where q: "quantity item = Fin q" "q \<in> \<nat>"
    by (auto dest!: whole_cases)
  have total: "exactTotalItems (item # its) = q + exactTotalItems its"
    by (simp add: exactTotalItems_def q)
  from exactTotalItems_Nats [OF rest] have nn: "0 \<le> exactTotalItems its" by (rule Nats_nonneg)
  from Cons.prems(3) total nn have le: "a + q \<le> 2 ^ 53" by linarith
  have acc: "a + q \<in> \<nat>" using Cons.prems(2) q(2) by (rule Nats_add)
  have "js_add (Fin a) (quantity item) = Fin (a + q)"
    using fl_Nats [OF acc le] by (simp add: q)
  moreover from Cons.prems(3) total have "a + q + exactTotalItems its \<le> 2 ^ 53" by simp
  ultimately show ?case
    using Cons.IH [OF rest acc] total by (simp add: add.assoc)
qed

lemma cartTotalsConsistent_exact:
  assumes "cartTotalsConsistent c" and "wholeItems (items c)"
    and "exactTotalPrice (items c) \<le> 2 ^ 53" and "exactTotalItems (items c) \<le> 2 ^ 53"
  shows "cartTotalsExact c"
  using assms foldl_totalPrice_whole [of "items c" 0] foldl_totalItems_whole [of "items c" 0]
  by (simp add: cartTotalsConsistent_def cartTotalsExact_def)

lemma calculateTotals_consistent: "cartTotalsConsistent (calculateTotals c)"
  by (simp add: cartTotalsConsistent_def calculateTotals_def)

lemma save_cart_Inr: "save_cart c = Inr c' \<Longrightarrow> c' = c"
  by (simp add: save_cart_def split: if_splits)

lemma applyOp_consistent: "applyOp ps c op = Inr c' \<Longrightarrow> cartTotalsConsistent c'"
proof (cases op)
  case (AddItem pid qty)
  assume "applyOp ps c op = Inr c'"
  with AddItem show ?thesis
    by (auto simp: addItem_def Let_def calculateTotals_consistent
             split: option.splits if_splits dest!: save_cart_Inr)
next
  case (UpdateItemQuantity pid qty)
  assume "applyOp ps c op = Inr c'"
  with UpdateItemQuantity show ?thesis
    by (auto simp: updateItemQuantity_def removeItem_def calculateTotals_consistent
             split: option.splits if_splits dest!: save_cart_Inr)
next
  case (RemoveItem pid)
  assume "applyOp ps c op = Inr c'"
  with RemoveItem show ?thesis
    by (auto simp: removeItem_def calculateTotals_consistent dest!: save_cart_Inr)
next
  case ClearCart
  assume "applyOp ps c op = Inr c'"
  with ClearCart show ?thesis
    by (auto simp: clearCart_def cartTotalsConsistent_def dest!: save_cart_Inr)
qed

text \<open>
  C1, as the claim states it: after every mutation the stored \<open>totalPrice\<close> is the
  sum of \<open>price * quantity\<close> over the items. The code adds and multiplies doubles. Three
  sachets at \<open>0.1\<close> are stored with the total \<open>0.30000000000000004\<close>, which is not three
  times the price; a necklace at \<open>2^53\<close> and a charm at 1 are stored with the total
  \<open>2^53\<close>, which is one short of the sum.
\<close>

theorem cart_totals_exact_sums_counterexample:
  "cartStates emptyCart [([9 \<mapsto> sachet], AddItem 9 (Fin 3))] = [cartOfSachets] \<and>
   Cart.totalPrice cartOfSachets = Fin (1351079888211149 / 4503599627370496) \<and>
   exactTotalPrice (items cartOfSachets) = 10808639105689191 / 36028797018963968 \<and>
   \<not> cartTotalsExact cartOfSachets \<and>
   cartStates emptyCart
     [([10 \<mapsto> necklace, 11 \<mapsto> charm], AddItem 10 (Fin 1)),
      ([10 \<mapsto> necklace, 11 \<mapsto> charm], AddItem 11 (Fin 1))] = [cartOfNecklace, cartOfJewels] \<and>
   Cart.totalPrice cartOfJewels = Fin 9007199254740992 \<and>
   exactTotalPrice (items cartOfJewels) = 9007199254740993 \<and>
   \<not> cartTotalsExact cartOfJewels"
proof -
  have r1: "fl (10808639105689191 / 36028797018963968) = Fin (1351079888211149 / 4503599627370496)"
    by (simp add: fl_frac [where n = 54] round_simps)
  have r2: "fl (1351079888211149 / 4503599627370496) = Fin (1351079888211149 / 4503599627370496)"
    by (simp add: fl_frac [where n = 54] round_simps)
  have r3: "fl 9007199254740993 = Fin 9007199254740992"
    by (simp add: fl_big [where n = 1] round_simps)
  have "cartStates emptyCart [([9 \<mapsto> sachet], AddItem 9 (Fin 3))] = [cartOfSachets]"
    by (simp add: emptyCart_def sachet_def cartOfSachets_def addItem_def calculateTotals_def
          save_cart_def cartValid_def cartItemValid_def js_le_def r1 r2)
  moreover have "cartStates emptyCart
     [([10 \<mapsto> necklace, 11 \<mapsto> charm], AddItem 10 (Fin 1)),
      ([10 \<mapsto> necklace, 11 \<mapsto> charm], AddItem 11 (Fin 1))] = [cartOfNecklace, cartOfJewels]"
    by (simp add: emptyCart_def necklace_def charm_def cartOfNecklace_def cartOfJewels_def addItem_def
          calculateTotals_def save_cart_def cartValid_def cartItemValid_def js_le_def r3)
  moreover have "exactTotalPrice (items cartOfSachets) = 10808639105689191 / 36028797018963968"
    by (simp add: cartOfSachets_def exactTotalPrice_def)
  moreover have "exactTotalPrice (items cartOfJewels) = 9007199254740993"
    by (simp add: cartOfJewels_def exactTotalPrice_def)
  ultimately show ?thesis
    by (simp add: cartTotalsExact_def) (simp add: cartOfSachets_def cartOfJewels_def)
qed

text \<open>
  C1, amended. Whatever the cart and whatever the history of mutations (\<open>addItem\<close>,
  \<open>updateItemQuantity\<close>, \<open>removeItem\<close>, \<open>clearCart\<close>, each against the products of
  its moment), the cart stored after each mutation has \<open>totalPrice\<close> and \<open>totalItems\<close>
  equal to the sums that the code computes over its items, in double arithmetic from
  the first item on. Where the prices and the quantities are whole and the exact sums
  do not exceed \<open>2^53\<close>, the stored totals are the exact sums. Nothing is assumed of the
  cart the history starts from.
\<close>

theorem cart_totals_after_every_mutation:
  "\<forall>c' \<in> set (cartStates c steps).
     cartTotalsConsistent c' \<and>
     (wholeItems (items c') \<and> exactTotalPrice (items c') \<le> 2 ^ 53 \<and>
      exactTotalItems (items c') \<le> 2 ^ 53 \<longrightarrow> cartTotalsExact c')"
proof -
  have "\<forall>c' \<in> set (cartStates c steps). cartTotalsConsistent c'"
  proof (induction steps arbitrary: c)
    case Nil
    show ?case by simp
  next
    case (Cons step steps)
    obtain ps op where step: "step = (ps, op)" by (cases step)
    show ?case
    proof (cases "applyOp ps c op")
      case (Inl e)
      with step Cons.IH [of c] show ?thesis by simp
    next
      case (Inr c1)
      with step Cons.IH [of c1] applyOp_consistent [OF Inr] show ?thesis by simp
    qed
  qed
  then show ?thesis by (auto intro: cartTotalsConsistent_exact)
qed

lemma cartStates_exampleHistory: "cartStates emptyCart exampleHistory = exampleStates"
  by (simp add: exampleHistory_def exampleStates_def emptyCart_def lipstick_def serum_def addItem_def
        updateItemQuantity_def removeItem_def clearCart_def calculateTotals_def save_cart_def
        cartValid_def cartItemValid_def js_le_def js_gt_def Let_def)

theorem cart_totals_after_every_mutation_witness:
  "cartStates emptyCart exampleHistory = exampleStates \<and>
   length exampleStates = 8 \<and>
   list_all cartTotalsConsistent exampleStates \<and>
   list_all cartTotalsExact exampleStates"
proof -
  have whole: "\<forall>c' \<in> set exampleStates.
      wholeItems (items c') \<and> exactTotalPrice (items c') \<le> 2 ^ 53 \<and> exactTotalItems (items c') \<le> 2 ^ 53"
    by (simp add: exampleStates_def wholeItems_def exactTotalPrice_def exactTotalItems_def)
  from cart_totals_after_every_mutation [of emptyCart exampleHistory] whole
  have "list_all cartTotalsConsistent exampleStates \<and> list_all cartTotalsExact exampleStates"
    by (auto simp: cartStates_exampleHistory list_all_iff)
  then show ?thesis by (simp add: cartStates_exampleHistory) (simp add: exampleStates_def)
qed

text \<open>
  The mutations do store. \<open>clearCart\<close> is never rejected, and on a stored cart with
  whole items and sums up to \<open>2^53\<close> neither is \<open>removeItem\<close>: the items of the product
  are dropped and the totals are the exact sums over the items that stay.
\<close>

lemma clearCart_stores:
  "clearCart c = Inr (c\<lparr>items := [], Cart.totalPrice := Fin 0, totalItems := Fin 0\<rparr>)"
  by (simp add: clearCart_def save_cart_def cartValid_def js_le_def)

lemma wholeItems_filter: "wholeItems its \<Longrightarrow> wholeItems (filter P its)"
  by (simp add: wholeItems_def list_all_iff)

lemma exactTotalPrice_filter_le:
  "wholeItems its \<Longrightarrow> exactTotalPrice (filter P its) \<le> exactTotalPrice its"
proof (induction its)
  case Nil
  show ?case by simp
next
  case (Cons item its)
  then have rest: "wholeItems its" and w: "whole (price item)" "whole (quantity item)"
    by (simp_all add: wholeItems_def)
  from w have "0 \<le> val (price item) * val (quantity item)"
    by (auto dest!: whole_cases Nats_nonneg)
  with Cons.IH [OF rest] show ?case by (simp add: exactTotalPrice_def)
qed

lemma exactTotalItems_filter_le:
  "wholeItems its \<Longrightarrow> exactTotalItems (filter P its) \<le> exactTotalItems its"
proof (induction its)
  case Nil
  show ?case by simp
next
  case (Cons item its)
  then have rest: "wholeItems its" and w: "whole (quantity item)"
    by (simp_all add: wholeItems_def)
  from w have "0 \<le> val (quantity item)"
    by (auto dest!: whole_cases Nats_nonneg)
  with Cons.IH [OF rest] show ?case by (simp add: exactTotalItems_def)
qed

lemma removeItem_stores:
  assumes "cartValid c" and "wholeItems (items c)"
    and "exactTotalPrice (items c) \<le> 2 ^ 53" and "exactTotalItems (items c) \<le> 2 ^ 53"
  shows "removeItem c pid =
           Inr (c\<lparr>items := filter (\<lambda>item. product item \<noteq> pid) (items c),
                  Cart.totalPrice := Fin (exactTotalPrice (filter (\<lambda>item. product item \<noteq> pid) (items c))),
                  totalItems := Fin (exactTotalItems (filter (\<lambda>item. product item \<noteq> pid) (items c)))\<rparr>)"
proof -
  let ?its = "filter (\<lambda>item. product item \<noteq> pid) (items c)"
  from assms(2) have w: "wholeItems ?its" by (rule wholeItems_filter)
  from exactTotalPrice_filter_le [OF assms(2), of "\<lambda>item. product item \<noteq> pid"] assms(3)
  have p53: "0 + exactTotalPrice ?its \<le> 2 ^ 53" by simp
  from exactTotalItems_filter_le [OF assms(2), of "\<lambda>item. product item \<noteq> pid"] assms(4)
  have i53: "0 + exactTotalItems ?its \<le> 2 ^ 53" by simp
  have zero: "(0::rat) \<in> \<nat>" by simp
  from foldl_totalPrice_whole [OF w zero p53] foldl_totalItems_whole [OF w zero i53]
  have totals: "calculateTotals (c\<lparr>items := ?its\<rparr>) =
      c\<lparr>items := ?its, Cart.totalPrice := Fin (exactTotalPrice ?its),
        totalItems := Fin (exactTotalItems ?its)\<rparr>"
    by (simp add: calculateTotals_def)
  from exactTotalPrice_Nats [OF w] have "0 \<le> exactTotalPrice ?its" by (rule Nats_nonneg)
  moreover from exactTotalItems_Nats [OF w] have "0 \<le> exactTotalItems ?its" by (rule Nats_nonneg)
  moreover from assms(1) have "list_all cartItemValid ?its"
    by (simp add: cartValid_def list_all_iff)
  ultimately have "cartValid (c\<lparr>items := ?its, Cart.totalPrice := Fin (exactTotalPrice ?its),
        totalItems := Fin (exactTotalItems ?its)\<rparr>)"
    by (auto simp: cartValid_def js_le_def)
  with totals show ?thesis by (simp add: removeItem_def save_cart_def)
qed

subsection \<open>Adding beyond the stock\<close>

text \<open>
  C2. The claim: \<open>addItem\<close> with a quantity that would take the item beyond the
  product's stock is rejected and stores nothing, in particular for a product with
  stock 5, a cart without it and a quantity of 6. The source compares the quantity with
  the stock only where the cart already holds the product. At the input of the claim the
  call goes through and stores an item of quantity 6.
\<close>

theorem addItem_new_item_beyond_stock:
  "stock lipstick = Fin 5 \<and>
   addItem [7 \<mapsto> lipstick] emptyCart 7 (Fin 6) =
     Inr \<lparr>Cart.user = 1,
          items = [\<lparr>product = 7, name = ''Lipstick'', image = [], price = Fin 399, quantity = Fin 6\<rparr>],
          totalPrice = Fin 2394, totalItems = Fin 6\<rparr>"
  by (simp add: addItem_def lipstick_def emptyCart_def calculateTotals_def save_cart_def
        cartValid_def cartItemValid_def js_le_def)

text \<open>Where the cart holds the product, the sum of the quantities is compared with the
  stock, and a rejected call stores nothing.\<close>

lemma addItem_existing_item_beyond_stock:
  assumes "ps pid = Some p" and "inStock p"
    and "findIndex (\<lambda>item. product item = pid) (items c) = Some i"
    and "js_gt (js_add (quantity (items c ! i)) qty) (stock p)"
  shows "addItem ps c pid qty = Inl (OnlyAvailable (stock p))"
  using assms by (simp add: addItem_def)

subsection \<open>A cart item whose product has been deleted\<close>

text \<open>
  C9. The claim: a cart operation on an item whose product has been deleted ends with
  a reported error of the application. \<open>updateItemQuantity\<close> with a positive quantity
  reads \<open>stock\<close> of the \<open>null\<close> that \<open>findById\<close> returned: the TypeError of the runtime
  escapes the method and the controller's own error mapping, and is answered by the
  generic handler with status 500.
\<close>

theorem updateItemQuantity_deleted_product:
  "updateItemQuantity (products dbProductDeleted) cartWithLipstick 7 (Fin 1) = Inl TypeError \<and>
   updateCartItem dbProductDeleted 1 7 (Fin 1) = (Failure 500 (Thrown TypeError), dbProductDeleted)"
  by (simp add: updateCartItem_def updateItemQuantity_def dbProductDeleted_def cartWithLipstick_def
        mentionsNotFoundOrStock_def errorHandler_def js_le_def falsy_def)

subsection \<open>Checkout\<close>

lemma copy_items: "map (\<lambda>item. \<lparr>product = product item, name = name item, image = image item,
        price = price item, quantity = quantity item\<rparr>) its = its"
  by (induction its) simp_all

lemma calculateOrderTotals_fields:
  "moneyFieldsOk (calculateOrderTotals order)"
  by (simp add: moneyFieldsOk_def calculateOrderTotals_def Let_def)

lemma buildOrder_fields:
  "moneyFieldsOk (buildOrder now newId userId cart addr meth) \<and>
   orderItems (buildOrder now newId userId cart addr meth) = items cart"
  using calculateOrderTotals_fields [of "newOrder newId userId (items cart) addr meth"]
  by (simp add: buildOrder_def Let_def copy_items moneyFieldsOk_def calculateOrderTotals_def newOrder_def)

lemma validateStock_Some:
  "validateStock ps its = Some r \<Longrightarrow>
     (\<exists>n. r = Failure 404 (ProductOfItemNotFound n)) \<or> (\<exists>n. r = Failure 400 (ProductOfItemUnavailable n))"
  by (induction its) (auto split: option.splits if_splits)

lemma validateStock_not_created [simp]: "validateStock ps its \<noteq> Some (OrderCreated order intent)"
  using validateStock_Some [of ps its "OrderCreated order intent"] by auto

lemma buildOrder_order_id [simp]: "order_id (buildOrder now newId userId cart addr meth) = newId"
  by (simp add: buildOrder_def calculateOrderTotals_def newOrder_def Let_def)

lemma replace_absent:
  "j \<notin> order_id ` set os \<Longrightarrow> map (\<lambda>d. if order_id d = j then doc' else d) os = os"
  by (induction os) auto

lemma createOrder_OrderCreated_raw:
  assumes "createOrder stripe_create now newId db userId reqAddress reqMethod = (OrderCreated order intent, db')"
  obtains addr cart meth where
    "reqAddress = Some addr" and "carts db userId = Some cart" and "items cart \<noteq> []"
    and "validateStock (products db) (items cart) = None"
    and "meth = (case reqMethod of None \<Rightarrow> ''stripe'' | Some m \<Rightarrow> m)"
    and "orderValid (buildOrder now newId userId cart addr meth)"
    and "newId \<notin> order_id ` set (orders db)"
    and "(meth \<noteq> ''stripe'' \<and> intent = None \<and> order = buildOrder now newId userId cart addr meth \<and>
          db' = db\<lparr>carts := (carts db)(userId \<mapsto> cart\<lparr>items := [], Cart.totalPrice := Fin 0, totalItems := Fin 0\<rparr>),
                   orders := orders db @ [order]\<rparr>) \<or>
         (meth = ''stripe'' \<and> (\<exists>clientSecret intentId.
            createPaymentIntent stripe_create (totalPrice (buildOrder now newId userId cart addr meth))
              = Inr (clientSecret, intentId) \<and>
            intent = Some (clientSecret, intentId) \<and>
            order = (buildOrder now newId userId cart addr meth)\<lparr>paymentIntentId := Some intentId\<rparr> \<and>
            db' = db\<lparr>carts := (carts db)(userId \<mapsto> cart\<lparr>items := [], Cart.totalPrice := Fin 0, totalItems := Fin 0\<rparr>),
                     orders := map (\<lambda>doc. if order_id doc = order_id order then order else doc)
                                 (orders db @ [buildOrder now newId userId cart addr meth])\<rparr>))"
  using assms
  by (auto simp: createOrder_def Let_def insert_order_def save_order_def clearCart_def errorHandler_def
      split: option.splits if_splits sum.splits prod.splits dest!: save_cart_Inr)

lemma createOrder_OrderCreated:
  assumes "createOrder stripe_create now newId db userId reqAddress reqMethod = (OrderCreated order intent, db')"
  obtains addr cart meth where
    "reqAddress = Some addr" and "carts db userId = Some cart" and "items cart \<noteq> []"
    and "validateStock (products db) (items cart) = None"
    and "meth = (case reqMethod of None \<Rightarrow> ''stripe'' | Some m \<Rightarrow> m)"
    and "orderValid (buildOrder now newId userId cart addr meth)"
    and "newId \<notin> order_id ` set (orders db)"
    and "db' = db\<lparr>carts := (carts db)(userId \<mapsto> cart\<lparr>items := [], Cart.totalPrice := Fin 0, totalItems := Fin 0\<rparr>),
                   orders := orders db @ [order]\<rparr>"
    and "(meth \<noteq> ''stripe'' \<and> intent = None \<and> order = buildOrder now newId userId cart addr meth) \<or>
         (meth = ''stripe'' \<and> (\<exists>clientSecret intentId.
            createPaymentIntent stripe_create (totalPrice (buildOrder now newId userId cart addr meth))
              = Inr (clientSecret, intentId) \<and>
            intent = Some (clientSecret, intentId) \<and>
            order = (buildOrder now newId userId cart addr meth)\<lparr>paymentIntentId := Some intentId\<rparr>))"
proof -
  from assms obtain addr cart meth where
    facts: "reqAddress = Some addr" "carts db userId = Some cart" "items cart \<noteq> []"
      "validateStock (products db) (items cart) = None"
      "meth = (case reqMethod of None \<Rightarrow> ''stripe'' | Some m \<Rightarrow> m)"
      "orderValid (buildOrder now newId userId cart addr meth)"
    and fresh: "newId \<notin> order_id ` set (orders db)"
    and shape: "(meth \<noteq> ''stripe'' \<and> intent = None \<and> order = buildOrder now newId userId cart addr meth \<and>
          db' = db\<lparr>carts := (carts db)(userId \<mapsto> cart\<lparr>items := [], Cart.totalPrice := Fin 0, totalItems := Fin 0\<rparr>),
                   orders := orders db @ [order]\<rparr>) \<or>
         (meth = ''stripe'' \<and> (\<exists>clientSecret intentId.
            createPaymentIntent stripe_create (totalPrice (buildOrder now newId userId cart addr meth))
              = Inr (clientSecret, intentId) \<and>
            intent = Some (clientSecret, intentId) \<and>
            order = (buildOrder now newId userId cart addr meth)\<lparr>paymentIntentId := Some intentId\<rparr> \<and>
            db' = db\<lparr>carts := (carts db)(userId \<mapsto> cart\<lparr>items := [], Cart.totalPrice := Fin 0, totalItems := Fin 0\<rparr>),
                     orders := map (\<lambda>doc. if order_id doc = order_id order then order else doc)
                                 (orders db @ [buildOrder now newId userId cart addr meth])\<rparr>))"
    by (rule createOrder_OrderCreated_raw)
  from shape have oid: "order_id order = newId" by auto
  from fresh oid
  have "map (\<lambda>doc. if order_id doc = order_id order then order else doc)
           (orders db @ [buildOrder now newId userId cart addr meth]) = orders db @ [order]"
    by (simp add: replace_absent)
  with shape have db': "db' = db\<lparr>carts := (carts db)(userId \<mapsto> cart\<lparr>items := [], Cart.totalPrice := Fin 0, totalItems := Fin 0\<rparr>),
                   orders := orders db @ [order]\<rparr>"
    by auto
  from shape have "(meth \<noteq> ''stripe'' \<and> intent = None \<and> order = buildOrder now newId userId cart addr meth) \<or>
         (meth = ''stripe'' \<and> (\<exists>clientSecret intentId.
            createPaymentIntent stripe_create (totalPrice (buildOrder now newId userId cart addr meth))
              = Inr (clientSecret, intentId) \<and>
            intent = Some (clientSecret, intentId) \<and>
            order = (buildOrder now newId userId cart addr meth)\<lparr>paymentIntentId := Some intentId\<rparr>))"
    by blast
  with facts fresh db' show thesis by (rule that)
qed

lemmas example_defs = checkoutAddress_def serum_def cartWithSerum_def dbCheckout_def stripeAccepts_def
  orderOfSerum_def dbAfterCheckout_def dbLowStock_def

lemmas checkout_defs = createOrder_def buildOrder_def newOrder_def calculateOrderTotals_def
  insert_order_def save_order_def clearCart_def save_cart_def cartValid_def orderValid_def
  orderItemValid_def shippingAddressValid_def validStatuses_def createPaymentIntent_def
  errorHandler_def round_simps js_le_def js_gt_def falsy_def
  tenth_of_1000 tenth_of_400

lemma createOrder_dbCheckout:
  "createOrder stripeAccepts 100 50 dbCheckout 1 (Some checkoutAddress) None =
     (OrderCreated orderOfSerum (Some (''secret_1'', ''pi_1'')), dbAfterCheckout)"
  by (simp add: example_defs checkout_defs)

text \<open>
  The image snapshot that \<open>addItem\<close> takes is empty, and an order item must have an
  image: the checkout of a cart that \<open>addItem\<close> has built is rejected by the validators
  of the order, with nothing stored.
\<close>

lemma addItem_builds_cartWithLipstick:
  "addItem [7 \<mapsto> lipstick] emptyCart 7 (Fin 2) = Inr cartWithLipstick"
  by (simp add: addItem_def lipstick_def emptyCart_def cartWithLipstick_def calculateTotals_def
        save_cart_def cartValid_def cartItemValid_def js_le_def)

lemma createOrder_empty_image_rejected:
  "createOrder stripeAccepts 100 50 dbLipstick 1 (Some checkoutAddress) None =
     (Failure 400 (Thrown ValidationError), dbLipstick)"
  by (simp add: dbLipstick_def cartWithLipstick_def lipstick_def checkoutAddress_def checkout_defs)

lemma itemsPrice_cartOfToners:
  "foldl (\<lambda>total item. js_add total (js_mul (price item) (quantity item))) (Fin 0) (items cartOfToners) =
     Fin (5629499534213119 / 1125899906842624)"
  by (simp add: cartOfToners_def fl_frac [where n = 50] fl_frac [where n = 53] round_simps)

lemma taxPrice_cartOfToners:
  "Math_round (js_mul (Fin (5629499534213119 / 1125899906842624)) (fl (1 / 10))) = Fin 0"
  by (simp add: fl_tenth fl_frac [where n = 54] round_simps)

lemma buildOrder_cartOfToners:
  "buildOrder 100 52 1 cartOfToners checkoutAddress ''stripe'' = orderOfToners\<lparr>paymentIntentId := None\<rparr>"
proof -
  have "js_gt (Fin (5629499534213119 / 1125899906842624)) (Fin 500) = False"
    by (simp add: js_gt_def)
  then show ?thesis
    by (simp add: buildOrder_def calculateOrderTotals_def newOrder_def Let_def copy_items
          itemsPrice_cartOfToners taxPrice_cartOfToners
          fl_frac [where n = 50] fl_frac [where n = 47] round_simps)
       (simp add: orderOfToners_def cartOfToners_def checkoutAddress_def)
qed

lemma createOrder_dbToners:
  "createOrder stripeAccepts 100 52 dbToners 1 (Some checkoutAddress) None =
     (OrderCreated orderOfToners (Some (''secret_1'', ''pi_1'')),
      \<lparr>products = [12 \<mapsto> toner, 13 \<mapsto> balm],
       carts = [1 \<mapsto> \<lparr>Cart.user = 1, items = [], totalPrice = Fin 0, totalItems = Fin 0\<rparr>],
       orders = [orderOfToners]\<rparr>)"
proof -
  have stock: "validateStock (products dbToners) (items cartOfToners) = None"
    by (simp add: dbToners_def cartOfToners_def toner_def balm_def)
  have cart: "carts dbToners 1 = Some cartOfToners" "length (items cartOfToners) \<noteq> 0"
    "Cart.user cartOfToners = 1"
    by (simp_all add: dbToners_def cartOfToners_def)
  have addr: "address checkoutAddress \<noteq> []" "city checkoutAddress \<noteq> []"
    by (simp_all add: checkoutAddress_def)
  have valid: "orderValid (orderOfToners\<lparr>paymentIntentId := None\<rparr>)" "orderValid orderOfToners"
    by (simp_all add: orderOfToners_def checkoutAddress_def orderValid_def orderItemValid_def
          shippingAddressValid_def validStatuses_def js_le_def)
  have pay: "createPaymentIntent stripeAccepts (totalPrice (orderOfToners\<lparr>paymentIntentId := None\<rparr>)) =
               Inr (''secret_1'', ''pi_1'')"
    by (simp add: createPaymentIntent_def stripeAccepts_def orderOfToners_def falsy_def js_le_def)
  have oid: "order_id orderOfToners = 52" by (simp add: orderOfToners_def)
  have set: "orderOfToners\<lparr>paymentIntentId := Some ''pi_1''\<rparr> = orderOfToners"
    by (simp add: orderOfToners_def)
  from cart(3) have clear: "clearCart cartOfToners =
      Inr \<lparr>Cart.user = 1, items = [], totalPrice = Fin 0, totalItems = Fin 0\<rparr>"
    by (simp add: clearCart_def save_cart_def cartValid_def js_le_def cartOfToners_def)
  show ?thesis
    using stock cart(1,2) addr valid pay buildOrder_cartOfToners
    by (simp add: createOrder_def insert_order_def save_order_def clear oid set Let_def)
       (simp add: dbToners_def)
qed

text \<open>
  C3, as the claim states it: \<open>itemsPrice\<close> is the sum of \<open>price * quantity\<close> over the
  items and \<open>totalPrice\<close> is the sum of the three other fields. The code adds and
  multiplies doubles. For three toners at \<open>1.4\<close> and a balm at \<open>0.8\<close> the order is
  stored with \<open>itemsPrice\<close> \<open>4.999999999999999\<close>, which is not the sum of the prices
  times the quantities, and with \<open>totalPrice\<close> 55, which is not the sum of its
  \<open>itemsPrice\<close>, its tax of 0 and its shipping price of 50.
\<close>

theorem createOrder_exact_money_fields_counterexample:
  "fst (createOrder stripeAccepts 100 52 dbToners 1 (Some checkoutAddress) None) =
     OrderCreated orderOfToners (Some (''secret_1'', ''pi_1'')) \<and>
   itemsPrice orderOfToners = Fin (5629499534213119 / 1125899906842624) \<and>
   exactTotalPrice (orderItems orderOfToners) = 22517998136852479 / 4503599627370496 \<and>
   taxPrice orderOfToners = Fin 0 \<and> shippingPrice orderOfToners = Fin 50 \<and>
   totalPrice orderOfToners = Fin 55 \<and>
   val (itemsPrice orderOfToners) + val (taxPrice orderOfToners) + val (shippingPrice orderOfToners) =
     61924494876344319 / 1125899906842624 \<and>
   \<not> moneyFieldsExact orderOfToners"
proof -
  have exact: "exactTotalPrice (orderItems orderOfToners) = 22517998136852479 / 4503599627370496"
    by (simp add: orderOfToners_def exactTotalPrice_def)
  have fields: "itemsPrice orderOfToners = Fin (5629499534213119 / 1125899906842624)"
    "taxPrice orderOfToners = Fin 0" "shippingPrice orderOfToners = Fin 50"
    "totalPrice orderOfToners = Fin 55"
    by (simp_all add: orderOfToners_def)
  have sum: "val (itemsPrice orderOfToners) + val (taxPrice orderOfToners) + val (shippingPrice orderOfToners) =
     61924494876344319 / 1125899906842624"
    by (simp add: fields)
  have "\<not> moneyFieldsExact orderOfToners"
    by (simp add: moneyFieldsExact_def exact fields)
  with exact fields sum show ?thesis
    using createOrder_dbToners by simp
qed

lemma moneyFieldsOk_itemsPrice_exact:
  assumes "moneyFieldsOk order" and "wholeItems (orderItems order)"
    and "exactTotalPrice (orderItems order) \<le> 2 ^ 53"
  shows "itemsPrice order = Fin (exactTotalPrice (orderItems order))"
  using assms foldl_totalPrice_whole [of "orderItems order" 0]
  by (simp add: moneyFieldsOk_def)

lemma moneyFieldsOk_exact:
  assumes "moneyFieldsOk order" and "wholeItems (orderItems order)"
    and "exactTotalPrice (orderItems order) \<le> 2 ^ 40"
  shows "moneyFieldsExact order"
proof -
  define n where "n = exactTotalPrice (orderItems order)"
  have nN: "n \<in> \<nat>" unfolding n_def using assms(2) by (rule exactTotalPrice_Nats)
  then have n0: "0 \<le> n" by (rule Nats_nonneg)
  have n40: "n \<le> 2 ^ 40" using assms(3) by (simp add: n_def)
  then have n53: "n \<le> 2 ^ 53" by simp
  from moneyFieldsOk_itemsPrice_exact [OF assms(1,2)] n53
  have ip: "itemsPrice order = Fin n" by (simp add: n_def)
  define t where "t = \<lfloor>n / 10 + 1 / 2\<rfloor>"
  from assms(1) ip tenth_of_whole [OF nN n40]
  have tax: "taxPrice order = Fin (of_int t)" by (simp add: moneyFieldsOk_def t_def)
  have t0: "0 \<le> t" unfolding t_def using n0 by simp
  then have tN: "(of_int t :: rat) \<in> \<nat>" by (simp add: Nats_altdef1)
  have t_hi: "(of_int t :: rat) \<le> n / 10 + 1 / 2" unfolding t_def by (rule of_int_floor_le)
  from assms(1) ip
  have ship: "shippingPrice order = (if 500 < n then Fin 0 else Fin 50)"
    by (simp add: moneyFieldsOk_def js_gt_def)
  have s1N: "n + of_int t \<in> \<nat>" using nN tN by (rule Nats_add)
  have s1le: "n + of_int t \<le> 2 ^ 53" using n40 n0 t_hi by simp
  have "(50::rat) \<in> \<nat>" by simp
  with s1N have s2N: "n + of_int t + 50 \<in> \<nat>" by (rule Nats_add)
  have s2le: "n + of_int t + 50 \<le> 2 ^ 53" using n40 n0 t_hi by simp
  note sums = fl_Nats [OF s1N s1le] fl_Nats [OF s2N s2le]
  from assms(1)
  have "totalPrice order = js_add (js_add (itemsPrice order) (taxPrice order)) (shippingPrice order)"
    by (simp add: moneyFieldsOk_def)
  then have "totalPrice order = Fin (n + of_int t + (if 500 < n then 0 else 50))"
    unfolding ip tax ship by (simp add: sums)
  with ip tax ship show ?thesis
    by (simp add: moneyFieldsExact_def n_def [symmetric] t_def [symmetric])
qed

text \<open>
  C3, amended. An order that \<open>createOrder\<close> answers with (the cart was not empty)
  carries the cart's items, and its money fields are those that the code computes in
  double arithmetic: \<open>itemsPrice\<close> the sum of \<open>price * quantity\<close> from the first item
  on, \<open>taxPrice\<close> the product of \<open>itemsPrice\<close> and the double \<open>0.1\<close> rounded to the
  nearest integer, \<open>shippingPrice\<close> 0 above 500 and 50 otherwise, \<open>totalPrice\<close> the sum
  of the three in that order. Where the prices and the quantities are whole and their
  exact sum does not exceed \<open>2^53\<close>, \<open>itemsPrice\<close> is that sum; where it does not exceed
  \<open>2^40\<close>, all four fields are those of exact arithmetic: \<open>taxPrice\<close> is a tenth of
  the sum rounded to the nearest integer and \<open>totalPrice\<close> is the sum of the three. An
  \<open>itemsPrice\<close> of 1000 gives tax 100, shipping 0 and total 1100; one of 400 gives tax
  40, shipping 50 and total 490.
\<close>

theorem createOrder_money_fields:
  assumes "createOrder stripe_create now newId db userId reqAddress reqMethod =
             (OrderCreated order intent, db')"
  shows "(\<exists>cart. carts db userId = Some cart \<and> items cart \<noteq> [] \<and> orderItems order = items cart) \<and>
         itemsPrice order =
           foldl (\<lambda>total item. js_add total (js_mul (price item) (quantity item))) (Fin 0)
             (orderItems order) \<and>
         taxPrice order = Math_round (js_mul (itemsPrice order) (fl (1 / 10))) \<and>
         shippingPrice order = (if js_gt (itemsPrice order) (Fin 500) then Fin 0 else Fin 50) \<and>
         totalPrice order = js_add (js_add (itemsPrice order) (taxPrice order)) (shippingPrice order) \<and>
         (wholeItems (orderItems order) \<and> exactTotalPrice (orderItems order) \<le> 2 ^ 53 \<longrightarrow>
            itemsPrice order = Fin (exactTotalPrice (orderItems order))) \<and>
         (wholeItems (orderItems order) \<and> exactTotalPrice (orderItems order) \<le> 2 ^ 40 \<longrightarrow>
            moneyFieldsExact order) \<and>
         (itemsPrice order = Fin 1000 \<longrightarrow>
            taxPrice order = Fin 100 \<and> shippingPrice order = Fin 0 \<and> totalPrice order = Fin 1100) \<and>
         (itemsPrice order = Fin 400 \<longrightarrow>
            taxPrice order = Fin 40 \<and> shippingPrice order = Fin 50 \<and> totalPrice order = Fin 490)"
proof -
  from assms obtain addr cart meth where
    cart: "carts db userId = Some cart" "items cart \<noteq> []"
    and order: "order = buildOrder now newId userId cart addr meth \<or>
                (\<exists>intentId. order = (buildOrder now newId userId cart addr meth)\<lparr>paymentIntentId := Some intentId\<rparr>)"
    by (rule createOrder_OrderCreated) blast
  from order buildOrder_fields [of now newId userId cart addr meth]
  have fields: "moneyFieldsOk order" and its: "orderItems order = items cart"
    by (auto simp: moneyFieldsOk_def)
  from fields have
    "itemsPrice order = Fin 1000 \<longrightarrow>
       taxPrice order = Fin 100 \<and> shippingPrice order = Fin 0 \<and> totalPrice order = Fin 1100"
    "itemsPrice order = Fin 400 \<longrightarrow>
       taxPrice order = Fin 40 \<and> shippingPrice order = Fin 50 \<and> totalPrice order = Fin 490"
    by (simp_all add: moneyFieldsOk_def tenth_of_1000 tenth_of_400 js_gt_def floor_numeral_div)
  moreover have "wholeItems (orderItems order) \<and> exactTotalPrice (orderItems order) \<le> 2 ^ 53 \<longrightarrow>
            itemsPrice order = Fin (exactTotalPrice (orderItems order))"
    using moneyFieldsOk_itemsPrice_exact [OF fields] by blast
  moreover have "wholeItems (orderItems order) \<and> exactTotalPrice (orderItems order) \<le> 2 ^ 40 \<longrightarrow>
            moneyFieldsExact order"
    using moneyFieldsOk_exact [OF fields] by blast
  ultimately show ?thesis using fields its cart
    by (simp add: moneyFieldsOk_def)
qed

theorem createOrder_money_fields_witness:
  "createOrder stripeAccepts 100 50 dbCheckout 1 (Some checkoutAddress) None =
     (OrderCreated orderOfSerum (Some (''secret_1'', ''pi_1'')), dbAfterCheckout) \<and>
   wholeItems (orderItems orderOfSerum) \<and> exactTotalPrice (orderItems orderOfSerum) = 1000 \<and>
   itemsPrice orderOfSerum = Fin 1000 \<and> taxPrice orderOfSerum = Fin 100 \<and>
   shippingPrice orderOfSerum = Fin 0 \<and> totalPrice orderOfSerum = Fin 1100 \<and>
   moneyFieldsExact orderOfSerum"
proof -
  have ip: "itemsPrice orderOfSerum = Fin 1000" by (simp add: orderOfSerum_def)
  have w: "wholeItems (orderItems orderOfSerum)" "exactTotalPrice (orderItems orderOfSerum) = 1000"
    by (simp_all add: orderOfSerum_def wholeItems_def exactTotalPrice_def)
  then have w40: "wholeItems (orderItems orderOfSerum) \<and> exactTotalPrice (orderItems orderOfSerum) \<le> 2 ^ 40"
    by simp
  note fields = createOrder_money_fields [OF createOrder_dbCheckout]
  from fields
  have "itemsPrice orderOfSerum = Fin 1000 \<longrightarrow>
          taxPrice orderOfSerum = Fin 100 \<and> shippingPrice orderOfSerum = Fin 0 \<and>
          totalPrice orderOfSerum = Fin 1100"
    by (elim conjE)
  moreover from fields
  have "wholeItems (orderItems orderOfSerum) \<and> exactTotalPrice (orderItems orderOfSerum) \<le> 2 ^ 40 \<longrightarrow>
          moneyFieldsExact orderOfSerum"
    by (elim conjE)
  ultimately show ?thesis using ip w w40 createOrder_dbCheckout by blast
qed

lemma validateStock_fails:
  assumes "item \<in> set its"
    and "case ps (product item) of
           None \<Rightarrow> True
         | Some p \<Rightarrow> \<not> inStock p \<or> js_lt (stock p) (quantity item)"
  shows "\<exists>r. validateStock ps its = Some r"
  using assms by (induction its) (auto split: option.splits)

text \<open>
  C4. A checkout with a valid address on a cart one of whose items refers to a product
  that is missing, not in stock, or in stock for less than the item's quantity, is
  answered with 404 (product not found) or 400 (out of stock or insufficient quantity),
  and the database is what it was: no order is stored and the cart is not cleared.
\<close>

theorem createOrder_all_or_nothing:
  assumes "reqAddress = Some addr" and "address addr \<noteq> []" and "city addr \<noteq> []"
    and "carts db userId = Some cart"
    and "item \<in> set (items cart)"
    and "case products db (product item) of
           None \<Rightarrow> True
         | Some p \<Rightarrow> \<not> inStock p \<or> js_lt (stock p) (quantity item)"
  shows "\<exists>code f. createOrder stripe_create now newId db userId reqAddress reqMethod = (Failure code f, db) \<and>
           ((code = 404 \<and> (\<exists>n. f = ProductOfItemNotFound n)) \<or>
            (code = 400 \<and> (\<exists>n. f = ProductOfItemUnavailable n)))"
proof -
  from assms(5,6) obtain r where r: "validateStock (products db) (items cart) = Some r"
    using validateStock_fails by blast
  from assms(5) have nonempty: "items cart \<noteq> []" by auto
  from r assms(1-4) nonempty
  have "createOrder stripe_create now newId db userId reqAddress reqMethod = (r, db)"
    by (simp add: createOrder_def)
  with validateStock_Some [OF r] show ?thesis by auto
qed

lemma createOrder_dbLowStock:
  "createOrder stripeAccepts 100 50 dbLowStock 1 (Some checkoutAddress) None =
     (Failure 400 (ProductOfItemUnavailable ''Serum''), dbLowStock)"
  by (simp add: dbLowStock_def cartWithSerum_def serum_def checkoutAddress_def createOrder_def)

theorem createOrder_all_or_nothing_witness:
  "products dbLowStock 8 = Some (serum\<lparr>stock := Fin 1\<rparr>) \<and> js_lt (stock (serum\<lparr>stock := Fin 1\<rparr>)) (Fin 2) \<and>
   carts dbLowStock 1 = Some cartWithSerum \<and>
   createOrder stripeAccepts 100 50 dbLowStock 1 (Some checkoutAddress) None =
     (Failure 400 (ProductOfItemUnavailable ''Serum''), dbLowStock) \<and>
   orders dbLowStock = []"
proof -
  have item: "\<lparr>product = 8, name = ''Serum'', image = ''https://img/8.jpg'', price = Fin 500, quantity = Fin 2\<rparr>
                \<in> set (items cartWithSerum)"
    by (simp add: cartWithSerum_def)
  have short: "case products dbLowStock (product \<lparr>product = 8, name = ''Serum'', image = ''https://img/8.jpg'', price = Fin 500, quantity = Fin 2\<rparr>) of
           None \<Rightarrow> True
         | Some p \<Rightarrow> \<not> inStock p \<or> js_lt (stock p) (quantity \<lparr>product = 8, name = ''Serum'', image = ''https://img/8.jpg'', price = Fin 500, quantity = Fin 2\<rparr>)"
    by (simp add: dbLowStock_def serum_def)
  have cart: "carts dbLowStock 1 = Some cartWithSerum" by (simp add: dbLowStock_def)
  have addr: "address checkoutAddress \<noteq> []" "city checkoutAddress \<noteq> []"
    by (simp_all add: checkoutAddress_def)
  from createOrder_all_or_nothing [OF refl addr cart item short, of stripeAccepts 100 50 None]
  have "snd (createOrder stripeAccepts 100 50 dbLowStock 1 (Some checkoutAddress) None) = dbLowStock"
    by auto
  with cart createOrder_dbLowStock show ?thesis by (simp add: dbLowStock_def serum_def)
qed

subsection \<open>Payment confirmation\<close>

lemma findById_order_id: "findById i os = Some doc \<Longrightarrow> order_id doc = i"
  by (auto simp: findById_def dest: find_Some_iff [THEN iffD1])

lemma findById_replace:
  "findById i os = Some doc \<Longrightarrow> order_id doc' = i \<Longrightarrow>
   findById i (map (\<lambda>d. if order_id d = order_id doc' then doc' else d) os) = Some doc'"
  unfolding findById_def by (induction os) (auto split: if_splits)

lemma decreaseStock_stock:
  assumes "decreaseStock f its ps = (None, ps')" and "\<And>p. stock (f p) = stock p"
  shows "(ps' pid = None \<longleftrightarrow> ps pid = None) \<and>
         (\<forall>p. ps pid = Some p \<longrightarrow>
            (\<exists>p'. ps' pid = Some p' \<and>
               stock p' = foldl js_sub (stock p)
                            (map quantity (filter (\<lambda>item. product item = pid) its))))"
  using assms
proof (induction its arbitrary: ps)
  case Nil
  then show ?case by simp
next
  case (Cons item rest)
  show ?case
  proof (cases "ps (product item)")
    case None
    with Cons.prems have "decreaseStock f rest ps = (None, ps')" by simp
    from Cons.IH [OF this Cons.prems(2)] None show ?thesis by auto
  next
    case (Some p)
    let ?p' = "f (p\<lparr>stock := js_sub (stock p) (quantity item)\<rparr>)"
    from Cons.prems Some have rest: "decreaseStock f rest (ps(product item \<mapsto> ?p')) = (None, ps')"
      by (simp add: Let_def split: if_splits)
    from Cons.IH [OF rest Cons.prems(2)] Some Cons.prems(2) show ?thesis
      by auto
  qed
qed

text \<open>
  Where the stock and the quantities are whole and the stock covers the quantities, the
  subtractions of the loop are exact.
\<close>

lemma Nats_diff: "(a::rat) \<in> \<nat> \<Longrightarrow> b \<in> \<nat> \<Longrightarrow> b \<le> a \<Longrightarrow> a - b \<in> \<nat>"
proof -
  assume "a \<in> \<nat>" "b \<in> \<nat>" "b \<le> a"
  then obtain m n where mn: "a = of_nat m" "b = of_nat n" by (auto elim!: Nats_cases)
  with \<open>b \<le> a\<close> have "n \<le> m" by simp
  then have "a - b = of_nat (m - n)" by (simp add: mn of_nat_diff)
  then show ?thesis by simp
qed

lemma foldl_js_sub_whole:
  assumes "s \<in> \<nat>" and "s \<le> 2 ^ 53" and "list_all (\<lambda>item. whole (quantity item)) its"
    and "exactTotalItems its \<le> s"
  shows "foldl js_sub (Fin s) (map quantity its) = Fin (s - exactTotalItems its)"
  using assms
proof (induction its arbitrary: s)
  case Nil
  then show ?case by (simp add: exactTotalItems_def)
next
  case (Cons item its)
  from Cons.prems(3) obtain q where q: "quantity item = Fin q" "q \<in> \<nat>"
    and rest: "list_all (\<lambda>item. whole (quantity item)) its"
    by (auto dest!: whole_cases)
  have total: "exactTotalItems (item # its) = q + exactTotalItems its"
    by (simp add: exactTotalItems_def q)
  have "exactTotalItems its \<in> \<nat>"
    using rest by (induction its) (auto simp: exactTotalItems_def dest!: whole_cases)
  then have nn: "0 \<le> exactTotalItems its" by (rule Nats_nonneg)
  from q(2) have q0: "0 \<le> q" by (rule Nats_nonneg)
  from Cons.prems(4) total nn have qs: "q \<le> s" by linarith
  have diff: "s - q \<in> \<nat>" using Cons.prems(1) q(2) qs by (rule Nats_diff)
  have le: "s - q \<le> 2 ^ 53" using Cons.prems(2) q0 by linarith
  have step: "js_sub (Fin s) (quantity item) = Fin (s - q)"
    using fl_Nats [OF diff le] by (simp add: js_sub_def q)
  from Cons.prems(4) total have "exactTotalItems its \<le> s - q" by linarith
  from Cons.IH [OF diff le rest this] step total show ?case by (simp add: algebra_simps)
qed

lemma inStockByStock_stock [simp]: "stock (inStockByStock p) = stock p"
  by (simp add: inStockByStock_def)

lemma updateOrderToPaid_OrderUpdated:
  assumes "updateOrderToPaid sr now db orderId rid email = (OrderUpdated order', db')"
  obtains order where "findById orderId (orders db) = Some order" and "\<not> isPaid order"
    and "isPaid order'" and "paidAt order' = Some now" and "orderStatus order' = ''processing''"
    and "order_id order' = orderId" and "orderItems order' = orderItems order"
    and "decreaseStock inStockByStock (orderItems order) (products db) = (None, products db')"
    and "orders db' = map (\<lambda>d. if order_id d = orderId then order' else d) (orders db)"
    and "carts db' = carts db"
  using assms
  by (auto simp: updateOrderToPaid_def recordPayment_def Let_def save_order_def errorHandler_def
      split: option.splits if_splits sum.splits prod.splits dest: findById_order_id)

lemmas paid_defs = updateOrderToPaid_def recordPayment_def findById_def verifyPaymentIntent_def
  inStockByStock_def
  productValid_def save_order_def orderValid_def orderItemValid_def shippingAddressValid_def
  validStatuses_def errorHandler_def Let_def js_le_def js_gt_def js_sub_def

lemma updateOrderToPaid_dbAfterCheckout:
  "updateOrderToPaid stripeSucceeded 200 dbAfterCheckout 50 (Some ''pi_1'') ''asha@example.com'' =
     (OrderUpdated orderOfSerumPaid, dbPaid)"
  by (simp add: paid_defs stripeSucceeded_def orderOfSerumPaid_def dbPaid_def dbAfterCheckout_def
        orderOfSerum_def checkoutAddress_def serum_def)

text \<open>
  C5. After \<open>updateOrderToPaid\<close> has confirmed the payment of an order, a second call
  for the same order, whatever its arguments, is answered with 400 (order is already
  paid) and leaves the database as the first call left it. After the two calls the
  stock of every product is its stock before the first call less the quantities of the
  order's items that refer to it, subtracted one after the other as the code does: each
  item has been taken off the stock once. Where the stock and those quantities are
  whole, the stock is at most \<open>2^53\<close> and it covers the quantities, the stock after the
  two calls is the exact difference.
\<close>

theorem updateOrderToPaid_twice:
  assumes "updateOrderToPaid stripe_retrieve now db orderId reqIntentId userEmail = (OrderUpdated order', db')"
  shows "updateOrderToPaid stripe_retrieve2 now2 db' orderId reqIntentId2 userEmail2 =
           (Failure 400 OrderAlreadyPaid, db') \<and>
         (\<forall>pid p. products db pid = Some p \<longrightarrow>
            (\<exists>p'. products
                    (snd (updateOrderToPaid stripe_retrieve2 now2 db' orderId reqIntentId2 userEmail2)) pid
                    = Some p' \<and>
                  stock p' = foldl js_sub (stock p)
                    (map quantity (filter (\<lambda>item. product item = pid) (orderItems order'))) \<and>
                  (whole (stock p) \<and> val (stock p) \<le> 2 ^ 53 \<and>
                   list_all (\<lambda>item. whole (quantity item)) (orderItems order') \<and>
                   exactTotalItems (filter (\<lambda>item. product item = pid) (orderItems order')) \<le> val (stock p) \<longrightarrow>
                     stock p' = Fin (val (stock p) -
                       exactTotalItems (filter (\<lambda>item. product item = pid) (orderItems order'))))))"
proof -
  from assms obtain order where
    found: "findById orderId (orders db) = Some order"
    and paid: "isPaid order'" and oid: "order_id order' = orderId"
    and its: "orderItems order' = orderItems order"
    and dec: "decreaseStock inStockByStock (orderItems order) (products db) = (None, products db')"
    and os: "orders db' = map (\<lambda>d. if order_id d = orderId then order' else d) (orders db)"
    by (rule updateOrderToPaid_OrderUpdated)
  from findById_replace [OF found oid] oid os
  have "findById orderId (orders db') = Some order'" by simp
  with paid have second:
    "updateOrderToPaid stripe_retrieve2 now2 db' orderId reqIntentId2 userEmail2 =
       (Failure 400 OrderAlreadyPaid, db')"
    by (simp add: updateOrderToPaid_def)
  have exact: "foldl js_sub (stock p) (map quantity (filter (\<lambda>item. product item = pid) (orderItems order'))) =
          Fin (val (stock p) - exactTotalItems (filter (\<lambda>item. product item = pid) (orderItems order')))"
    if "whole (stock p)" "val (stock p) \<le> 2 ^ 53"
       "list_all (\<lambda>item. whole (quantity item)) (orderItems order')"
       "exactTotalItems (filter (\<lambda>item. product item = pid) (orderItems order')) \<le> val (stock p)"
    for p pid
  proof -
    from that(1) obtain s where s: "stock p = Fin s" "s \<in> \<nat>" by (auto dest!: whole_cases)
    from that(3) have "list_all (\<lambda>item. whole (quantity item))
        (filter (\<lambda>item. product item = pid) (orderItems order'))"
      by (simp add: list_all_iff)
    from foldl_js_sub_whole [OF s(2) _ this] that(2,4) s(1) show ?thesis by simp
  qed
  have "\<exists>p'. products (snd (updateOrderToPaid stripe_retrieve2 now2 db' orderId reqIntentId2 userEmail2)) pid
                 = Some p' \<and>
               stock p' = foldl js_sub (stock p)
                 (map quantity (filter (\<lambda>item. product item = pid) (orderItems order'))) \<and>
               (whole (stock p) \<and> val (stock p) \<le> 2 ^ 53 \<and>
                list_all (\<lambda>item. whole (quantity item)) (orderItems order') \<and>
                exactTotalItems (filter (\<lambda>item. product item = pid) (orderItems order')) \<le> val (stock p) \<longrightarrow>
                  stock p' = Fin (val (stock p) -
                    exactTotalItems (filter (\<lambda>item. product item = pid) (orderItems order'))))"
    if p: "products db pid = Some p" for pid p
  proof -
    from decreaseStock_stock [OF dec, of pid] p its obtain p' where
      p': "products db' pid = Some p'"
      and stock: "stock p' = foldl js_sub (stock p)
                 (map quantity (filter (\<lambda>item. product item = pid) (orderItems order')))"
      by auto
    from stock exact [of p pid]
    have "whole (stock p) \<and> val (stock p) \<le> 2 ^ 53 \<and>
          list_all (\<lambda>item. whole (quantity item)) (orderItems order') \<and>
          exactTotalItems (filter (\<lambda>item. product item = pid) (orderItems order')) \<le> val (stock p) \<longrightarrow>
            stock p' = Fin (val (stock p) -
              exactTotalItems (filter (\<lambda>item. product item = pid) (orderItems order')))"
      by simp
    with p' stock second show ?thesis by simp
  qed
  with second show ?thesis by blast
qed

theorem updateOrderToPaid_twice_witness:
  "updateOrderToPaid stripeSucceeded 200 dbAfterCheckout 50 (Some ''pi_1'') ''asha@example.com'' =
     (OrderUpdated orderOfSerumPaid, dbPaid) \<and>
   updateOrderToPaid stripeSucceeded 300 dbPaid 50 (Some ''pi_1'') ''asha@example.com'' =
     (Failure 400 OrderAlreadyPaid, dbPaid) \<and>
   map_option stock (products dbAfterCheckout 8) = Some (Fin 10) \<and>
   map quantity (orderItems orderOfSerumPaid) = [Fin 2] \<and>
   map_option stock (products dbPaid 8) = Some (Fin 8)"
proof -
  have "map quantity (orderItems orderOfSerumPaid) = [Fin 2]"
    by (simp add: orderOfSerumPaid_def orderOfSerum_def)
  moreover have "map_option stock (products dbAfterCheckout 8) = Some (Fin 10)"
    "map_option stock (products dbPaid 8) = Some (Fin 8)"
    by (simp_all add: dbPaid_def dbAfterCheckout_def serum_def)
  moreover from updateOrderToPaid_twice [OF updateOrderToPaid_dbAfterCheckout,
          of stripeSucceeded 300 "Some ''pi_1''" "''asha@example.com''"]
  have "updateOrderToPaid stripeSucceeded 300 dbPaid 50 (Some ''pi_1'') ''asha@example.com'' =
     (Failure 400 OrderAlreadyPaid, dbPaid)"
    by (elim conjE)
  ultimately show ?thesis using updateOrderToPaid_dbAfterCheckout by simp
qed

subsection \<open>The webhook\<close>

lemmas webhook_defs = stripeWebhook_def findOneByPaymentResultId_def inStockOffAtZero_def
  productValid_def save_order_def orderValid_def orderItemValid_def shippingAddressValid_def
  validStatuses_def Let_def js_le_def js_gt_def js_sub_def

text \<open>
  C6. The claim: for an unpaid stripe order with a stored payment intent id, the
  webhook on \<open>payment_intent.succeeded\<close> finds the order by that id and performs the
  transition of \<open>updateOrderToPaid\<close>. \<open>createOrder\<close> stores the id in
  \<open>paymentIntentId\<close>; the webhook searches \<open>paymentResult.id\<close>, which an unpaid order
  does not have. On the database that the checkout left, the webhook for the order's
  intent changes nothing, where \<open>updateOrderToPaid\<close> marks the order paid and lowers
  the stock.
\<close>

theorem stripeWebhook_misses_unpaid_order:
  "findById 50 (orders dbAfterCheckout) = Some orderOfSerum \<and>
   paymentMethod orderOfSerum = ''stripe'' \<and> \<not> isPaid orderOfSerum \<and>
   paymentIntentId orderOfSerum = Some ''pi_1'' \<and>
   stripeWebhook handleSucceeded 200 dbAfterCheckout (Some ''whsec_1'') = (Received, dbAfterCheckout) \<and>
   updateOrderToPaid stripeSucceeded 200 dbAfterCheckout 50 (Some ''pi_1'') ''asha@example.com'' =
     (OrderUpdated orderOfSerumPaid, dbPaid) \<and>
   dbPaid \<noteq> dbAfterCheckout"
proof -
  have "stripeWebhook handleSucceeded 200 dbAfterCheckout (Some ''whsec_1'') = (Received, dbAfterCheckout)"
    by (simp add: webhook_defs handleSucceeded_def dbAfterCheckout_def orderOfSerum_def)
  moreover have "orders dbPaid \<noteq> orders dbAfterCheckout"
    by (simp add: dbPaid_def dbAfterCheckout_def orderOfSerumPaid_def orderOfSerum_def)
  then have "dbPaid \<noteq> dbAfterCheckout" by auto
  moreover have "findById 50 (orders dbAfterCheckout) = Some orderOfSerum"
    by (simp add: findById_def dbAfterCheckout_def orderOfSerum_def)
  ultimately show ?thesis
    using updateOrderToPaid_dbAfterCheckout by (simp add: orderOfSerum_def)
qed

text \<open>
  Where an unpaid order does carry a payment result with the id, the webhook marks it
  paid and lowers the stock, and \<open>orderStatus\<close> stays \<open>pending\<close>. And while no order
  has a payment result, no webhook event changes the database.
\<close>

lemma stripeWebhook_found_keeps_orderStatus:
  "stripeWebhook handleSucceeded 200 dbPaymentFailed (Some ''whsec_1'') =
     (Received,
      dbPaymentFailed
        \<lparr>products := [8 \<mapsto> serum\<lparr>stock := Fin 8\<rparr>],
         orders := [orderOfSerumFailed
                      \<lparr>paymentResult := Some \<lparr>id' = Some ''pi_1'', status = Some ''succeeded'',
                                               update_time = Some 200, email_address = None\<rparr>,
                       isPaid := True, paidAt := Some 200\<rparr>]\<rparr>) \<and>
   orderStatus orderOfSerumFailed = ''pending''"
  by (simp add: webhook_defs handleSucceeded_def dbPaymentFailed_def orderOfSerumFailed_def
        dbAfterCheckout_def orderOfSerum_def checkoutAddress_def serum_def)

lemma find_None_all: "(\<And>x. x \<in> set xs \<Longrightarrow> \<not> P x) \<Longrightarrow> find P xs = None"
  by (induction xs) auto

lemma stripeWebhook_no_payment_result:
  assumes "\<And>doc. doc \<in> set (orders db) \<Longrightarrow> paymentResult doc = None"
  shows "snd (stripeWebhook handleWebhook now db webhookSecret) = db"
proof -
  have "findOneByPaymentResultId i (orders db) = None" for i
    unfolding findOneByPaymentResultId_def using assms by (intro find_None_all) simp
  then show ?thesis
    by (simp add: stripeWebhook_def split: sum.splits event.splits)
qed

subsection \<open>Delivery\<close>

text \<open>
  C8, as the claim states it: a second \<open>delivered\<close> leaves the recorded
  \<open>deliveredAt\<close> unchanged. On \<open>dbPaid\<close>, a first call at time 10 records 10 and a
  second call at time 20 records 20.
\<close>

theorem updateOrderStatus_delivered_twice_counterexample:
  "map deliveredAt (orders (snd (updateOrderStatus 10 dbPaid 50 ''delivered''))) = [Some 10] \<and>
   map deliveredAt
     (orders (snd (updateOrderStatus 20 (snd (updateOrderStatus 10 dbPaid 50 ''delivered'')) 50 ''delivered'')))
     = [Some 20]"
  by (simp add: updateOrderStatus_def findById_def save_order_def orderValid_def orderItemValid_def
        shippingAddressValid_def validStatuses_def Let_def dbPaid_def orderOfSerumPaid_def
        orderOfSerum_def checkoutAddress_def js_le_def)

lemma updateOrderStatus_OrderUpdated:
  assumes "updateOrderStatus now db orderId st = (OrderUpdated order', db')"
  obtains order where "findById orderId (orders db) = Some order"
    and "order' = (if st = ''delivered''
                   then order\<lparr>orderStatus := st, isDelivered := True, deliveredAt := Some now\<rparr>
                   else order\<lparr>orderStatus := st\<rparr>)"
    and "orderValid order'"
    and "db' = db\<lparr>orders := map (\<lambda>d. if order_id d = orderId then order' else d) (orders db)\<rparr>"
  using assms
  by (auto simp: updateOrderStatus_def Let_def save_order_def errorHandler_def
      split: option.splits if_splits dest: findById_order_id)

text \<open>
  C8, amended. A call of \<open>updateOrderStatus\<close> with \<open>delivered\<close> that goes through
  sets \<open>isDelivered\<close>, sets \<open>deliveredAt\<close> to the time of the call and stores the
  order; a second call with \<open>delivered\<close> goes through as well and answers with the same
  order, \<open>deliveredAt\<close> replaced by the time of the second call.
\<close>

theorem updateOrderStatus_delivered_overwrites:
  assumes "updateOrderStatus now db orderId ''delivered'' = (OrderUpdated order', db')"
  shows "isDelivered order' \<and> deliveredAt order' = Some now \<and> orderStatus order' = ''delivered'' \<and>
         findById orderId (orders db') = Some order' \<and>
         fst (updateOrderStatus now2 db' orderId ''delivered'') =
           OrderUpdated (order'\<lparr>deliveredAt := Some now2\<rparr>)"
proof -
  from assms obtain order where
    found: "findById orderId (orders db) = Some order"
    and order': "order' = order\<lparr>orderStatus := ''delivered'', isDelivered := True, deliveredAt := Some now\<rparr>"
    and valid: "orderValid order'"
    and db': "db' = db\<lparr>orders := map (\<lambda>d. if order_id d = orderId then order' else d) (orders db)\<rparr>"
    by (rule updateOrderStatus_OrderUpdated) simp
  from findById_order_id [OF found] order' have oid: "order_id order' = orderId" by simp
  from findById_replace [OF found oid] oid db'
  have found': "findById orderId (orders db') = Some order'" by simp
  from valid have "orderValid (order'\<lparr>deliveredAt := Some now2\<rparr>)"
    by (simp add: orderValid_def)
  with found' order'
  have "fst (updateOrderStatus now2 db' orderId ''delivered'') =
          OrderUpdated (order'\<lparr>deliveredAt := Some now2\<rparr>)"
    by (simp add: updateOrderStatus_def validStatuses_def save_order_def Let_def)
  with order' found' show ?thesis by simp
qed

lemma updateOrderStatus_dbPaid:
  "updateOrderStatus 10 dbPaid 50 ''delivered'' =
     (OrderUpdated (orderOfSerumPaid\<lparr>isDelivered := True, deliveredAt := Some 10, orderStatus := ''delivered''\<rparr>),
      dbPaid\<lparr>orders := [orderOfSerumPaid\<lparr>isDelivered := True, deliveredAt := Some 10, orderStatus := ''delivered''\<rparr>]\<rparr>)"
  by (simp add: updateOrderStatus_def findById_def save_order_def orderValid_def orderItemValid_def
        shippingAddressValid_def validStatuses_def Let_def dbPaid_def orderOfSerumPaid_def
        orderOfSerum_def checkoutAddress_def js_le_def)

theorem updateOrderStatus_delivered_overwrites_witness:
  "fst (updateOrderStatus 10 dbPaid 50 ''delivered'') =
     OrderUpdated (orderOfSerumPaid\<lparr>isDelivered := True, deliveredAt := Some 10, orderStatus := ''delivered''\<rparr>) \<and>
   fst (updateOrderStatus 20
          (dbPaid\<lparr>orders := [orderOfSerumPaid\<lparr>isDelivered := True, deliveredAt := Some 10, orderStatus := ''delivered''\<rparr>]\<rparr>)
          50 ''delivered'') =
     OrderUpdated (orderOfSerumPaid\<lparr>isDelivered := True, deliveredAt := Some 20, orderStatus := ''delivered''\<rparr>)"
  using updateOrderStatus_delivered_overwrites [OF updateOrderStatus_dbPaid, of 20]
    updateOrderStatus_dbPaid
  by simp

subsection \<open>Price snapshots\<close>

lemma snapshot_quantity_update:
  "i < length its \<Longrightarrow> map snapshot (its[i := (its ! i)\<lparr>quantity := q\<rparr>]) = map snapshot its"
  by (simp add: list_eq_iff_nth_eq nth_list_update snapshot_def)

lemma findIndex_Some_less: "findIndex P xs = Some i \<Longrightarrow> i < length xs"
  by (induction xs arbitrary: i) (auto split: if_splits)

lemma findIndex_None_iff: "findIndex P xs = None \<longleftrightarrow> (\<forall>x \<in> set xs. \<not> P x)"
  by (induction xs) auto

lemma addItem_snapshots:
  assumes "addItem ps c pid qty = Inr c'"
  shows "if pid \<in> product ` set (items c)
         then map snapshot (items c') = map snapshot (items c)
         else \<exists>p. ps pid = Some p \<and>
                map snapshot (items c') =
                  map snapshot (items c) @ [(pid, Product.name p, [], Product.price p)]"
proof -
  from assms obtain p where p: "ps pid = Some p"
    by (auto simp: addItem_def split: option.splits)
  show ?thesis
  proof (cases "findIndex (\<lambda>item. product item = pid) (items c)")
    case None
    then have absent: "pid \<notin> product ` set (items c)"
      by (auto simp: findIndex_None_iff)
    from None assms p have "items c' = items c @
        [\<lparr>product = pid, name = Product.name p, image = [], price = Product.price p, quantity = qty\<rparr>]"
      by (auto simp: addItem_def calculateTotals_def split: if_splits dest!: save_cart_Inr)
    with p absent show ?thesis by (simp add: snapshot_def)
  next
    case (Some i)
    then have "findIndex (\<lambda>item. product item = pid) (items c) \<noteq> None" by simp
    then have held: "pid \<in> product ` set (items c)"
      unfolding findIndex_None_iff by auto
    from Some assms p have "items c' =
        (items c)[i := (items c ! i)\<lparr>quantity := js_add (quantity (items c ! i)) qty\<rparr>]"
      by (auto simp: addItem_def Let_def calculateTotals_def split: if_splits dest!: save_cart_Inr)
    with findIndex_Some_less [OF Some] held show ?thesis
      by (simp add: snapshot_quantity_update)
  qed
qed

lemma removeItem_items:
  assumes "removeItem c pid = Inr c'"
  shows "items c' = filter (\<lambda>item. product item \<noteq> pid) (items c)"
  using assms by (auto simp: removeItem_def calculateTotals_def dest!: save_cart_Inr)

lemma updateItemQuantity_snapshots:
  assumes "updateItemQuantity ps c pid qty = Inr c'"
  shows "if js_le qty (Fin 0) then items c' = filter (\<lambda>item. product item \<noteq> pid) (items c)
         else map snapshot (items c') = map snapshot (items c)"
proof (cases "js_le qty (Fin 0)")
  case True
  with assms have "removeItem c pid = Inr c'" by (simp add: updateItemQuantity_def)
  from removeItem_items [OF this] True show ?thesis by simp
next
  case False
  with assms obtain i where i: "findIndex (\<lambda>item. product item = pid) (items c) = Some i"
    by (auto simp: updateItemQuantity_def split: option.splits)
  with assms False have "items c' = (items c)[i := (items c ! i)\<lparr>quantity := qty\<rparr>]"
    by (auto simp: updateItemQuantity_def calculateTotals_def
        split: option.splits if_splits dest!: save_cart_Inr)
  with findIndex_Some_less [OF i] False show ?thesis
    by (simp add: snapshot_quantity_update)
qed

lemma clearCart_items: "clearCart c = Inr c' \<Longrightarrow> items c' = []"
  by (auto simp: clearCart_def dest!: save_cart_Inr)

lemma updateProduct_carts: "carts (snd (updateProduct db pid newPrice newStock)) = carts db"
  by (simp add: updateProduct_def Let_def split: option.splits)

text \<open>
  C7. Updating a product (its price, its stock) leaves every cart as it is. No cart
  mutation changes the snapshot of an item that the cart holds. \<open>addItem\<close> for a product
  that the cart holds leaves the snapshots of all items as they are, item by item, and
  for a product that the cart does not hold it appends one item with the name and the
  price of the product at that moment. \<open>updateItemQuantity\<close> with a positive quantity
  leaves the snapshots as they are; with a quantity of zero or less, and \<open>removeItem\<close>,
  it drops the items of the product and leaves the others; \<open>clearCart\<close> drops all. And
  a checkout after the update of the product builds the order items from the cart items,
  with their stored prices, and computes \<open>itemsPrice\<close> from those.
\<close>

theorem price_snapshot_frozen:
  "carts (snd (updateProduct db pid newPrice newStock)) = carts db \<and>
   (applyOp ps c op = Inr c' \<longrightarrow>
      (case op of
         AddItem i qty \<Rightarrow>
           (if i \<in> product ` set (items c)
            then map snapshot (items c') = map snapshot (items c)
            else \<exists>p. ps i = Some p \<and>
                   map snapshot (items c') =
                     map snapshot (items c) @ [(i, Product.name p, [], Product.price p)])
       | UpdateItemQuantity i qty \<Rightarrow>
           (if js_le qty (Fin 0) then items c' = filter (\<lambda>item. product item \<noteq> i) (items c)
            else map snapshot (items c') = map snapshot (items c))
       | RemoveItem i \<Rightarrow> items c' = filter (\<lambda>item. product item \<noteq> i) (items c)
       | ClearCart \<Rightarrow> items c' = [])) \<and>
   (carts db userId = Some cart \<and>
    createOrder stripe_create now newId (snd (updateProduct db pid newPrice newStock)) userId
      reqAddress reqMethod = (OrderCreated order intent, db') \<longrightarrow>
      orderItems order = items cart \<and>
      itemsPrice order =
        foldl (\<lambda>total item. js_add total (js_mul (price item) (quantity item))) (Fin 0) (items cart))"
proof (intro conjI impI)
  show "carts (snd (updateProduct db pid newPrice newStock)) = carts db"
    by (rule updateProduct_carts)
next
  assume ok: "applyOp ps c op = Inr c'"
  show "case op of
         AddItem i qty \<Rightarrow>
           (if i \<in> product ` set (items c)
            then map snapshot (items c') = map snapshot (items c)
            else \<exists>p. ps i = Some p \<and>
                   map snapshot (items c') =
                     map snapshot (items c) @ [(i, Product.name p, [], Product.price p)])
       | UpdateItemQuantity i qty \<Rightarrow>
           (if js_le qty (Fin 0) then items c' = filter (\<lambda>item. product item \<noteq> i) (items c)
            else map snapshot (items c') = map snapshot (items c))
       | RemoveItem i \<Rightarrow> items c' = filter (\<lambda>item. product item \<noteq> i) (items c)
       | ClearCart \<Rightarrow> items c' = []"
  proof (cases op)
    case (AddItem i qty)
    with ok have "addItem ps c i qty = Inr c'" by simp
    from addItem_snapshots [OF this] AddItem show ?thesis by simp
  next
    case (UpdateItemQuantity i qty)
    with ok have "updateItemQuantity ps c i qty = Inr c'" by simp
    from updateItemQuantity_snapshots [OF this] UpdateItemQuantity show ?thesis by simp
  next
    case (RemoveItem i)
    with ok have "removeItem c i = Inr c'" by simp
    from removeItem_items [OF this] RemoveItem show ?thesis by simp
  next
    case ClearCart
    with ok have "clearCart c = Inr c'" by simp
    from clearCart_items [OF this] ClearCart show ?thesis by simp
  qed
next
  assume a: "carts db userId = Some cart \<and>
    createOrder stripe_create now newId (snd (updateProduct db pid newPrice newStock)) userId
      reqAddress reqMethod = (OrderCreated order intent, db')"
  then have cart: "carts (snd (updateProduct db pid newPrice newStock)) userId = Some cart"
    by (simp add: updateProduct_carts)
  from a obtain addr cart' meth where
    cart': "carts (snd (updateProduct db pid newPrice newStock)) userId = Some cart'"
    and order: "order = buildOrder now newId userId cart' addr meth \<or>
                (\<exists>intentId. order = (buildOrder now newId userId cart' addr meth)\<lparr>paymentIntentId := Some intentId\<rparr>)"
    by (elim conjE createOrder_OrderCreated) blast
  from cart cart' have same: "cart' = cart" by simp
  from order buildOrder_fields [of now newId userId cart' addr meth] same
  have "moneyFieldsOk order" and its: "orderItems order = items cart"
    by (auto simp: moneyFieldsOk_def)
  then show "orderItems order = items cart" by simp
  from \<open>moneyFieldsOk order\<close> its
  show "itemsPrice order =
        foldl (\<lambda>total item. js_add total (js_mul (price item) (quantity item))) (Fin 0) (items cart)"
    by (simp add: moneyFieldsOk_def)
qed

lemma updateProduct_dbCheckout:
  "updateProduct dbCheckout 8 (Some (Fin 650)) None =
     (ProductUpdated (serum\<lparr>Product.price := Fin 650\<rparr>), dbPriceRaised)"
  by (simp add: updateProduct_def dbCheckout_def dbPriceRaised_def Let_def js_le_def)

lemma createOrder_dbPriceRaised:
  "createOrder stripeAccepts 100 50 dbPriceRaised 1 (Some checkoutAddress) None =
     (OrderCreated orderOfSerum (Some (''secret_1'', ''pi_1'')),
      dbAfterCheckout\<lparr>products := [8 \<mapsto> serum\<lparr>Product.price := Fin 650\<rparr>]\<rparr>)"
  by (simp add: example_defs checkout_defs dbPriceRaised_def)

lemma addItem_dbPriceRaised:
  "applyOp (products dbPriceRaised) cartWithSerum (AddItem 8 (Fin 1)) = Inr cartWithThreeSerums"
  by (simp add: dbPriceRaised_def dbCheckout_def serum_def cartWithSerum_def cartWithThreeSerums_def
        addItem_def calculateTotals_def save_cart_def cartValid_def cartItemValid_def
        js_le_def js_gt_def Let_def)

theorem price_snapshot_frozen_witness:
  "map_option Product.price (products dbCheckout 8) = Some (Fin 500) \<and>
   updateProduct dbCheckout 8 (Some (Fin 650)) None =
     (ProductUpdated (serum\<lparr>Product.price := Fin 650\<rparr>), dbPriceRaised) \<and>
   map_option Product.price (products dbPriceRaised 8) = Some (Fin 650) \<and>
   carts dbPriceRaised 1 = Some cartWithSerum \<and>
   map snapshot (items cartWithSerum) = [(8, ''Serum'', ''https://img/8.jpg'', Fin 500)] \<and>
   applyOp (products dbPriceRaised) cartWithSerum (AddItem 8 (Fin 1)) = Inr cartWithThreeSerums \<and>
   map snapshot (items cartWithThreeSerums) = [(8, ''Serum'', ''https://img/8.jpg'', Fin 500)] \<and>
   fst (createOrder stripeAccepts 100 50 dbPriceRaised 1 (Some checkoutAddress) None) =
     OrderCreated orderOfSerum (Some (''secret_1'', ''pi_1'')) \<and>
   orderItems orderOfSerum = items cartWithSerum \<and>
   map price (orderItems orderOfSerum) = [Fin 500] \<and> itemsPrice orderOfSerum = Fin 1000"
proof -
  have c: "carts dbCheckout 1 = Some cartWithSerum" by (simp add: dbCheckout_def)
  have held: "8 \<in> product ` set (items cartWithSerum)" by (simp add: cartWithSerum_def)
  have snap: "map snapshot (items cartWithSerum) = [(8, ''Serum'', ''https://img/8.jpg'', Fin 500)]"
    by (simp add: cartWithSerum_def snapshot_def)
  from price_snapshot_frozen [of dbCheckout 8 "Some (Fin 650)" None "products dbPriceRaised" cartWithSerum
      "AddItem 8 (Fin 1)" cartWithThreeSerums 1 cartWithSerum stripeAccepts 100 50 "Some checkoutAddress" None
      orderOfSerum "Some (''secret_1'', ''pi_1'')"]
    c updateProduct_dbCheckout createOrder_dbPriceRaised addItem_dbPriceRaised held
  have frozen: "orderItems orderOfSerum = items cartWithSerum"
      "carts dbPriceRaised 1 = Some cartWithSerum"
      "map snapshot (items cartWithThreeSerums) = map snapshot (items cartWithSerum)"
    by simp_all
  have prices: "map_option Product.price (products dbCheckout 8) = Some (Fin 500)"
      "map_option Product.price (products dbPriceRaised 8) = Some (Fin 650)"
    by (simp_all add: dbCheckout_def dbPriceRaised_def serum_def)
  have order: "map price (orderItems orderOfSerum) = [Fin 500]" "itemsPrice orderOfSerum = Fin 1000"
    by (simp_all add: orderOfSerum_def)
  have "fst (createOrder stripeAccepts 100 50 dbPriceRaised 1 (Some checkoutAddress) None) =
     OrderCreated orderOfSerum (Some (''secret_1'', ''pi_1''))"
    using createOrder_dbPriceRaised by simp
  with frozen prices order snap updateProduct_dbCheckout addItem_dbPriceRaised
  show ?thesis by simp
qed

subsection \<open>Cash on delivery\<close>

lemma find_filter: "find P xs = (case filter P xs of [] \<Rightarrow> None | x # _ \<Rightarrow> Some x)"
  by (induction xs) auto

lemma paidOnDelivery_findById:
  assumes "paidOnDelivery i os"
  obtains doc where "findById i os = Some doc" and "isPaid doc" and "paymentResult doc = None"
  using assms unfolding paidOnDelivery_def findById_def find_filter
  by (cases "filter (\<lambda>doc. order_id doc = i) os") auto

lemma paidOnDelivery_member:
  "paidOnDelivery i os \<Longrightarrow> doc \<in> set os \<Longrightarrow> order_id doc = i \<Longrightarrow> isPaid doc \<and> paymentResult doc = None"
  by (auto simp: paidOnDelivery_def list_all_iff)

lemma paidOnDelivery_has_id: "paidOnDelivery i os \<Longrightarrow> i \<in> order_id ` set os"
  unfolding paidOnDelivery_def by (induction os) (auto split: if_splits)

lemma filter_replace_other:
  "order_id doc' = j \<Longrightarrow> j \<noteq> i \<Longrightarrow>
   filter (\<lambda>d. order_id d = i) (map (\<lambda>d. if order_id d = j then doc' else d) os) =
   filter (\<lambda>d. order_id d = i) os"
  by (induction os) auto

lemma filter_delete_other:
  "j \<noteq> i \<Longrightarrow> filter (\<lambda>d. order_id d = i) (findByIdAndDelete j os) = filter (\<lambda>d. order_id d = i) os"
  by (induction os) auto

lemma paidOnDelivery_replace_other:
  "paidOnDelivery i os \<Longrightarrow> order_id doc' = j \<Longrightarrow> j \<noteq> i \<Longrightarrow>
   paidOnDelivery i (map (\<lambda>d. if order_id d = j then doc' else d) os)"
  by (simp add: paidOnDelivery_def filter_replace_other)

lemma paidOnDelivery_replace_same:
  "paidOnDelivery i os \<Longrightarrow> isPaid doc' \<Longrightarrow> paymentResult doc' = None \<Longrightarrow> order_id doc' = i \<Longrightarrow>
   paidOnDelivery i (map (\<lambda>d. if order_id d = i then doc' else d) os)"
proof -
  assume doc': "isPaid doc'" "paymentResult doc' = None" "order_id doc' = i"
    and inv: "paidOnDelivery i os"
  from doc'(3) have "filter (\<lambda>d. order_id d = i) (map (\<lambda>d. if order_id d = i then doc' else d) os) =
      map (\<lambda>d. doc') (filter (\<lambda>d. order_id d = i) os)"
    by (induction os) auto
  with inv doc'(1,2) show ?thesis
    by (simp add: paidOnDelivery_def list_all_iff)
qed

lemma paidOnDelivery_append_other:
  "paidOnDelivery i os \<Longrightarrow> order_id doc' \<noteq> i \<Longrightarrow> paidOnDelivery i (os @ [doc'])"
  by (simp add: paidOnDelivery_def)

lemma paidOnDelivery_delete_other:
  "paidOnDelivery i os \<Longrightarrow> j \<noteq> i \<Longrightarrow> paidOnDelivery i (findByIdAndDelete j os)"
  by (simp add: paidOnDelivery_def filter_delete_other)

lemma delete_appended:
  "j \<notin> order_id ` set os \<Longrightarrow> order_id doc = j \<Longrightarrow> findByIdAndDelete j (os @ [doc]) = os"
  by (induction os) auto

lemma createOrder_orders:
  "orders (snd (createOrder stripe_create now newId db userId reqAddress reqMethod)) = orders db \<or>
   (newId \<notin> order_id ` set (orders db) \<and>
    (\<exists>order. order_id order = newId \<and>
       orders (snd (createOrder stripe_create now newId db userId reqAddress reqMethod))
         = orders db @ [order]))"
proof (cases "\<exists>order intent db'. createOrder stripe_create now newId db userId reqAddress reqMethod =
    (OrderCreated order intent, db')")
  case True
  then obtain order intent db' where
    created: "createOrder stripe_create now newId db userId reqAddress reqMethod = (OrderCreated order intent, db')"
    by blast
  from created obtain addr cart meth where
    fresh: "newId \<notin> order_id ` set (orders db)"
    and db': "db' = db\<lparr>carts := (carts db)(userId \<mapsto> cart\<lparr>items := [], Cart.totalPrice := Fin 0, totalItems := Fin 0\<rparr>),
                   orders := orders db @ [order]\<rparr>"
    and shape: "(meth \<noteq> ''stripe'' \<and> intent = None \<and> order = buildOrder now newId userId cart addr meth) \<or>
         (meth = ''stripe'' \<and> (\<exists>clientSecret intentId.
            createPaymentIntent stripe_create (totalPrice (buildOrder now newId userId cart addr meth))
              = Inr (clientSecret, intentId) \<and>
            intent = Some (clientSecret, intentId) \<and>
            order = (buildOrder now newId userId cart addr meth)\<lparr>paymentIntentId := Some intentId\<rparr>))"
    by (rule createOrder_OrderCreated)
  from shape have "order_id order = newId" by auto
  with db' have "order_id order = newId \<and> orders db' = orders db @ [order]" by simp
  with created fresh show ?thesis by auto
next
  case False
  have "orders (snd (createOrder stripe_create now newId db userId reqAddress reqMethod)) = orders db"
  proof (cases reqAddress)
    case None
    then show ?thesis by (simp add: createOrder_def)
  next
    case (Some addr)
    show ?thesis
    proof (cases "carts db userId")
      case None
      with Some show ?thesis by (simp add: createOrder_def Let_def)
    next
      case cart: (Some cart)
      define meth where "meth = (case reqMethod of None \<Rightarrow> ''stripe'' | Some m \<Rightarrow> m)"
      define order where "order = buildOrder now newId userId cart addr meth"
      show ?thesis
      proof (cases "address addr = [] \<or> city addr = [] \<or> items cart = [] \<or>
                    validateStock (products db) (items cart) \<noteq> None \<or>
                    \<not> orderValid order \<or> newId \<in> order_id ` set (orders db)")
        case True
        with Some cart show ?thesis
          by (auto simp: createOrder_def insert_order_def order_def meth_def Let_def
              split: option.splits)
      next
        case ok: False
        then have ins: "insert_order order (orders db) = Inr (orders db @ [order])"
          by (simp add: insert_order_def order_def)
        show ?thesis
        proof (cases "meth = ''stripe''")
          case notStripe: False
          with Some cart ok ins False show ?thesis
            by (auto simp: createOrder_def clearCart_stores order_def meth_def Let_def)
        next
          case stripe: True
          show ?thesis
          proof (cases "createPaymentIntent stripe_create (totalPrice order)")
            case (Inl e)
            with Some cart ok ins stripe show ?thesis
              by (auto simp: createOrder_def clearCart_stores order_def meth_def Let_def delete_appended)
          next
            case (Inr r)
            obtain clientSecret intentId where r: "r = (clientSecret, intentId)" by (cases r)
            from ok have "orderValid (order\<lparr>paymentIntentId := Some intentId\<rparr>)"
              by (simp add: orderValid_def)
            with Some cart ok ins stripe Inr r False show ?thesis
              by (auto simp: createOrder_def clearCart_stores order_def meth_def Let_def save_order_def)
          qed
        qed
      qed
    qed
  qed
  then show ?thesis by simp
qed

lemma createOrder_paidOnDelivery:
  assumes "paidOnDelivery i (orders db)"
  shows "paidOnDelivery i (orders (snd (createOrder stripe_create now newId db userId reqAddress reqMethod)))"
  using createOrder_orders [of stripe_create now newId db userId reqAddress reqMethod] assms
    paidOnDelivery_has_id [OF assms]
  by (auto intro!: paidOnDelivery_append_other)

lemma findOneByPaymentResultId_Some:
  "findOneByPaymentResultId i os = Some doc \<Longrightarrow> doc \<in> set os \<and> paymentResult doc \<noteq> None"
  by (auto simp: findOneByPaymentResultId_def find_Some_iff split: option.splits)

lemma findById_Some_member: "findById i os = Some doc \<Longrightarrow> doc \<in> set os \<and> order_id doc = i"
  by (auto simp: findById_def find_Some_iff)

lemma paidOnDelivery_not_selected:
  "paidOnDelivery i os \<Longrightarrow> findOneByPaymentResultId x os = Some doc \<Longrightarrow> order_id doc \<noteq> i"
  using findOneByPaymentResultId_Some paidOnDelivery_member by blast

lemma save_order_cases:
  "save_order doc os = Inl ValidationError \<or>
   save_order doc os = Inr (map (\<lambda>d. if order_id d = order_id doc then doc else d) os)"
  by (simp add: save_order_def)

lemma updateOrderToPaid_already_paid:
  "findById orderId (orders db) = Some order \<Longrightarrow> isPaid order \<Longrightarrow>
   updateOrderToPaid sr now db orderId rid email = (Failure 400 OrderAlreadyPaid, db)"
  by (simp add: updateOrderToPaid_def)

lemma updateOrderToPaid_paidOnDelivery:
  assumes "paidOnDelivery i (orders db)"
  shows "paidOnDelivery i (orders (snd (updateOrderToPaid sr now db orderId rid email)))"
proof (cases "\<exists>order' db'. updateOrderToPaid sr now db orderId rid email = (OrderUpdated order', db')")
  case True
  then obtain order' db' where
    upd: "updateOrderToPaid sr now db orderId rid email = (OrderUpdated order', db')" by blast
  from upd obtain order where
    found: "findById orderId (orders db) = Some order" and unpaid: "\<not> isPaid order"
    and oid: "order_id order' = orderId"
    and os: "orders db' = map (\<lambda>d. if order_id d = orderId then order' else d) (orders db)"
    by (rule updateOrderToPaid_OrderUpdated)
  from findById_Some_member [OF found] unpaid paidOnDelivery_member [OF assms]
  have "orderId \<noteq> i" by blast
  with assms oid os upd show ?thesis by (simp add: paidOnDelivery_replace_other)
next
  case False
  have "orders (snd (updateOrderToPaid sr now db orderId rid email)) = orders db"
  proof (cases "findById orderId (orders db)")
    case None
    then show ?thesis by (simp add: updateOrderToPaid_def)
  next
    case (Some order)
    show ?thesis
    proof (cases "isPaid order")
      case True
      with Some show ?thesis by (simp add: updateOrderToPaid_def)
    next
      case unpaid: False
      show ?thesis
      proof (cases "recordPayment sr now order rid email")
        case (Inl r)
        with Some unpaid show ?thesis by (simp add: updateOrderToPaid_def)
      next
        case (Inr order1)
        define order2 where
          "order2 = order1\<lparr>isPaid := True, paidAt := Some now, orderStatus := ''processing''\<rparr>"
        obtain e ps where dec:
          "decreaseStock inStockByStock (orderItems order2) (products db) = (e, ps)"
          by (cases "decreaseStock inStockByStock (orderItems order2) (products db)")
        show ?thesis
        proof (cases e)
          case (Some err)
          with \<open>findById orderId (orders db) = Some order\<close> unpaid Inr dec show ?thesis
            by (simp add: updateOrderToPaid_def order2_def Let_def)
        next
          case None
          show ?thesis
          proof (cases "save_order order2 (orders db)")
            case (Inl err)
            with \<open>findById orderId (orders db) = Some order\<close> unpaid Inr dec None show ?thesis
              by (simp add: updateOrderToPaid_def order2_def Let_def)
          next
            case saved: (Inr os)
            with \<open>findById orderId (orders db) = Some order\<close> unpaid Inr dec None
            have "updateOrderToPaid sr now db orderId rid email =
                    (OrderUpdated order2, db\<lparr>products := ps, orders := os\<rparr>)"
              by (simp add: updateOrderToPaid_def order2_def Let_def)
            with False show ?thesis by blast
          qed
        qed
      qed
    qed
  qed
  with assms show ?thesis by simp
qed

lemma updateOrderStatus_paidOnDelivery:
  assumes "paidOnDelivery i (orders db)"
  shows "paidOnDelivery i (orders (snd (updateOrderStatus now db orderId st)))"
proof (cases "findById orderId (orders db)")
  case None
  with assms show ?thesis by (simp add: updateOrderStatus_def)
next
  case (Some order)
  define order2 where
    "order2 = (if st = ''delivered''
               then order\<lparr>orderStatus := st, isDelivered := True, deliveredAt := Some now\<rparr>
               else order\<lparr>orderStatus := st\<rparr>)"
  from findById_Some_member [OF Some]
  have props: "order_id order2 = orderId" "isPaid order2 = isPaid order"
      "paymentResult order2 = paymentResult order"
    by (simp_all add: order2_def)
  from Some have res: "orders (snd (updateOrderStatus now db orderId st)) = orders db \<or>
      orders (snd (updateOrderStatus now db orderId st)) =
        map (\<lambda>d. if order_id d = orderId then order2 else d) (orders db)"
    using save_order_cases [of order2 "orders db"] props(1)
    by (auto simp: updateOrderStatus_def order2_def Let_def)
  show ?thesis
  proof (cases "orderId = i")
    case True
    from findById_Some_member [OF Some] True paidOnDelivery_member [OF assms]
    have "isPaid order \<and> paymentResult order = None" by blast
    with props True have "paidOnDelivery i (map (\<lambda>d. if order_id d = orderId then order2 else d) (orders db))"
      using assms by (simp add: paidOnDelivery_replace_same)
    with res assms show ?thesis by auto
  next
    case False
    with props have "paidOnDelivery i (map (\<lambda>d. if order_id d = orderId then order2 else d) (orders db))"
      using assms by (simp add: paidOnDelivery_replace_other)
    with res assms show ?thesis by auto
  qed
qed

lemma webhook_save_paidOnDelivery:
  assumes "paidOnDelivery i os" and "findOneByPaymentResultId x os = Some order"
    and "order_id order' = order_id order"
  shows "case save_order order' os of Inl e \<Rightarrow> True | Inr os' \<Rightarrow> paidOnDelivery i os'"
  using assms paidOnDelivery_not_selected [OF assms(1,2)] save_order_cases [of order' os]
  by (auto simp: paidOnDelivery_replace_other)

lemma stripeWebhook_paidOnDelivery:
  assumes "paidOnDelivery i (orders db)"
  shows "paidOnDelivery i (orders (snd (stripeWebhook hw now db secret)))"
proof (cases "secret = None \<or> secret = Some []")
  case True
  with assms show ?thesis by (auto simp: stripeWebhook_def)
next
  case configured: False
  show ?thesis
  proof (cases "hw (the secret)")
    case (Inl m)
    with configured assms show ?thesis by (simp add: stripeWebhook_def)
  next
    case (Inr ev)
    show ?thesis
    proof (cases ev)
      case (PaymentIntentSucceeded paymentIntent)
      show ?thesis
      proof (cases "findOneByPaymentResultId (PaymentIntent.id' paymentIntent) (orders db)")
        case None
        with configured Inr PaymentIntentSucceeded assms show ?thesis
          by (simp add: stripeWebhook_def)
      next
        case (Some order)
        define order1 where
          "order1 = order\<lparr>isPaid := True, paidAt := Some now,
                          paymentResult := Some
                            \<lparr>id' = Some (PaymentIntent.id' paymentIntent),
                             status = Some ''succeeded'',
                             update_time = Some now,
                             email_address = receipt_email paymentIntent\<rparr>\<rparr>"
        have oid: "order_id order1 = order_id order" by (simp add: order1_def)
        obtain e ps where dec:
          "decreaseStock inStockOffAtZero (orderItems order1) (products db) = (e, ps)"
          by (cases "decreaseStock inStockOffAtZero (orderItems order1) (products db)")
        from webhook_save_paidOnDelivery [OF assms Some oid]
          configured Inr PaymentIntentSucceeded Some dec assms
        show ?thesis
          by (cases e; cases "save_order order1 (orders db)")
             (simp_all add: stripeWebhook_def order1_def Let_def)
      qed
    next
      case (PaymentIntentPaymentFailed failedPayment)
      show ?thesis
      proof (cases "findOneByPaymentResultId (PaymentIntent.id' failedPayment) (orders db)")
        case None
        with configured Inr PaymentIntentPaymentFailed assms show ?thesis
          by (simp add: stripeWebhook_def)
      next
        case (Some failedOrder)
        define order1 where
          "order1 = failedOrder\<lparr>paymentResult := Some
                             \<lparr>id' = Some (PaymentIntent.id' failedPayment), status = Some ''failed'',
                              update_time = None, email_address = None\<rparr>\<rparr>"
        have oid: "order_id order1 = order_id failedOrder" by (simp add: order1_def)
        from webhook_save_paidOnDelivery [OF assms Some oid]
          configured Inr PaymentIntentPaymentFailed Some assms
        show ?thesis
          by (cases "save_order order1 (orders db)")
             (simp_all add: stripeWebhook_def order1_def Let_def)
      qed
    next
      case (OtherEvent t)
      with configured Inr assms show ?thesis by (simp add: stripeWebhook_def)
    qed
  qed
qed

lemma updateCartItem_orders: "orders (snd (updateCartItem db userId productId qty)) = orders db"
  by (simp add: updateCartItem_def split: option.splits sum.splits)

lemma updateProduct_orders: "orders (snd (updateProduct db pid newPrice newStock)) = orders db"
  by (simp add: updateProduct_def Let_def split: option.splits)

lemma perform_paidOnDelivery:
  assumes "paidOnDelivery i (orders db)"
  shows "paidOnDelivery i (orders (perform db a))"
  using assms
  by (cases a)
     (simp_all add: createOrder_paidOnDelivery updateOrderToPaid_paidOnDelivery
        updateOrderStatus_paidOnDelivery stripeWebhook_paidOnDelivery
        updateCartItem_orders updateProduct_orders)

lemma foldl_perform_paidOnDelivery:
  "paidOnDelivery i (orders db) \<Longrightarrow> paidOnDelivery i (orders (foldl perform db later))"
  by (induction later arbitrary: db) (simp_all add: perform_paidOnDelivery)

lemma findById_append_fresh:
  "order_id doc \<notin> order_id ` set os \<Longrightarrow> findById (order_id doc) (os @ [doc]) = Some doc"
  unfolding findById_def by (induction os) auto

lemma paidOnDelivery_append_fresh:
  "order_id doc \<notin> order_id ` set os \<Longrightarrow> isPaid doc \<Longrightarrow> paymentResult doc = None \<Longrightarrow>
   paidOnDelivery (order_id doc) (os @ [doc])"
proof -
  assume fresh: "order_id doc \<notin> order_id ` set os" and doc: "isPaid doc" "paymentResult doc = None"
  from fresh have "filter (\<lambda>d. order_id d = order_id doc) os = []"
    by (induction os) auto
  with doc show ?thesis by (simp add: paidOnDelivery_def)
qed

lemma buildOrder_cod:
  "isPaid (buildOrder now newId userId cart addr ''cod'') \<and>
   paidAt (buildOrder now newId userId cart addr ''cod'') = Some now \<and>
   orderStatus (buildOrder now newId userId cart addr ''cod'') = ''processing'' \<and>
   paymentResult (buildOrder now newId userId cart addr ''cod'') = None \<and>
   paymentIntentId (buildOrder now newId userId cart addr ''cod'') = None"
  by (simp add: buildOrder_def calculateOrderTotals_def newOrder_def Let_def)

text \<open>
  C10. An order created by \<open>createOrder\<close> with payment method \<open>cod\<close> is stored paid,
  with \<open>paidAt\<close> the time of the checkout and status \<open>processing\<close>, without a payment
  intent, and the checkout leaves the products as they are. After any history of later
  requests, \<open>updateOrderToPaid\<close> for the order is answered with 400 (order is already
  paid) and changes nothing, and no lookup of the webhook by payment result id returns
  the order: neither path that lowers stock runs for it.
\<close>

theorem cod_order_is_never_paid_again:
  assumes "createOrder stripe_create now newId db userId reqAddress (Some ''cod'') =
             (OrderCreated order intent, db')"
  shows "isPaid order \<and> paidAt order = Some now \<and> orderStatus order = ''processing'' \<and>
         intent = None \<and> paymentIntentId order = None \<and>
         findById newId (orders db') = Some order \<and> products db' = products db \<and>
         updateOrderToPaid stripe_retrieve t (foldl perform db' later) newId reqIntentId userEmail =
           (Failure 400 OrderAlreadyPaid, foldl perform db' later) \<and>
         (\<forall>i doc. findOneByPaymentResultId i (orders (foldl perform db' later)) = Some doc \<longrightarrow>
                  order_id doc \<noteq> newId)"
proof -
  from assms obtain addr cart meth where
    meth: "meth = (case Some ''cod'' of None \<Rightarrow> ''stripe'' | Some m \<Rightarrow> m)"
    and fresh: "newId \<notin> order_id ` set (orders db)"
    and db': "db' = db\<lparr>carts := (carts db)(userId \<mapsto> cart\<lparr>items := [], Cart.totalPrice := Fin 0, totalItems := Fin 0\<rparr>),
                   orders := orders db @ [order]\<rparr>"
    and shape: "(meth \<noteq> ''stripe'' \<and> intent = None \<and> order = buildOrder now newId userId cart addr meth) \<or>
         (meth = ''stripe'' \<and> (\<exists>clientSecret intentId.
            createPaymentIntent stripe_create (totalPrice (buildOrder now newId userId cart addr meth))
              = Inr (clientSecret, intentId) \<and>
            intent = Some (clientSecret, intentId) \<and>
            order = (buildOrder now newId userId cart addr meth)\<lparr>paymentIntentId := Some intentId\<rparr>))"
    by (rule createOrder_OrderCreated)
  from meth have cod: "meth = ''cod''" by simp
  with shape have order: "order = buildOrder now newId userId cart addr ''cod''" and intent: "intent = None"
    by auto
  from order buildOrder_cod [of now newId userId cart addr]
  have fields: "isPaid order" "paidAt order = Some now" "orderStatus order = ''processing''"
      "paymentResult order = None" "paymentIntentId order = None"
    by simp_all
  from order have oid: "order_id order = newId" by simp
  from fresh oid db' findById_append_fresh [of order "orders db"]
  have found: "findById newId (orders db') = Some order" by simp
  from fresh oid db' fields paidOnDelivery_append_fresh [of order "orders db"]
  have "paidOnDelivery newId (orders db')" by simp
  then have inv: "paidOnDelivery newId (orders (foldl perform db' later))"
    by (rule foldl_perform_paidOnDelivery)
  from inv obtain doc where "findById newId (orders (foldl perform db' later)) = Some doc" "isPaid doc"
    by (rule paidOnDelivery_findById)
  then have second:
    "updateOrderToPaid stripe_retrieve t (foldl perform db' later) newId reqIntentId userEmail =
       (Failure 400 OrderAlreadyPaid, foldl perform db' later)"
    by (rule updateOrderToPaid_already_paid)
  from inv have "\<forall>i doc. findOneByPaymentResultId i (orders (foldl perform db' later)) = Some doc \<longrightarrow>
                  order_id doc \<noteq> newId"
    using paidOnDelivery_not_selected by blast
  with fields intent found second db' show ?thesis by simp
qed

lemma createOrder_cod_dbCheckout:
  "createOrder stripeAccepts 100 51 dbCheckout 1 (Some checkoutAddress) (Some ''cod'') =
     (OrderCreated orderOnDelivery None, dbOnDelivery)"
  by (simp add: example_defs checkout_defs orderOnDelivery_def dbOnDelivery_def)

lemma laterActions_dbOnDelivery:
  "foldl perform dbOnDelivery laterActions =
     dbOnDelivery\<lparr>orders := [orderOnDelivery\<lparr>orderStatus := ''shipped''\<rparr>]\<rparr>"
  by (simp add: laterActions_def dbOnDelivery_def orderOnDelivery_def checkoutAddress_def
        updateOrderStatus_def paid_defs webhook_defs handleSucceeded_def)

theorem cod_order_is_never_paid_again_witness:
  "createOrder stripeAccepts 100 51 dbCheckout 1 (Some checkoutAddress) (Some ''cod'') =
     (OrderCreated orderOnDelivery None, dbOnDelivery) \<and>
   isPaid orderOnDelivery \<and> orderStatus orderOnDelivery = ''processing'' \<and>
   updateOrderToPaid stripeSucceeded 200 (foldl perform dbOnDelivery laterActions) 51 (Some ''pi_1'')
       ''asha@example.com'' =
     (Failure 400 OrderAlreadyPaid, foldl perform dbOnDelivery laterActions) \<and>
   products (foldl perform dbOnDelivery laterActions) = products dbCheckout"
  using cod_order_is_never_paid_again [OF createOrder_cod_dbCheckout,
          of stripeSucceeded 200 laterActions "Some ''pi_1''" "''asha@example.com''"]
    createOrder_cod_dbCheckout laterActions_dbOnDelivery
  by (simp add: dbOnDelivery_def dbCheckout_def)

end
